theory Spec2Isabelle
  imports Main "HOL-Library.Word" "HOL-Library.Sublist"
begin

section \<open>Data model\<close>

text \<open>
  Shallow embedding of \<^verbatim>\<open>pkg/controller/sandboxclaim/core/util.go\<close> (the claim status
  calculation and the condition upsert), of the sandbox state classification with its
  cache (package \<^verbatim>\<open>sandboxutils\<close>) and of the update path of the validating webhook.
  Calls to \<^verbatim>\<open>klog\<close> only write log lines and are left out.
\<close>

text \<open>
  \<^verbatim>\<open>metav1.Time\<close> is a point in time, here in nanoseconds on an unbounded axis;
  \<^verbatim>\<open>time.Duration\<close> is a signed 64-bit count of nanoseconds; \<^verbatim>\<open>int32\<close> and
  \<^verbatim>\<open>int64\<close> are words read as two's complement.
\<close>

type_synonym Time = int
type_synonym Duration = "64 word"
type_synonym int32 = "32 word"
type_synonym int64 = "64 word"

text \<open>
  The wall clock: the sequence of readings that the calls to \<^verbatim>\<open>time.Now\<close> will return,
  in order. A reading consumes the head of the sequence.
\<close>

type_synonym clock = "nat \<Rightarrow> Time"

definition time_Now :: "clock \<Rightarrow> Time \<times> clock" where
  "time_Now clk = (clk 0, \<lambda>n. clk (Suc n))"

text \<open>
  \<^verbatim>\<open>Time.Sub\<close>: the difference of two points in time, saturating at the smallest and
  largest \<^verbatim>\<open>Duration\<close>.
\<close>

definition time_Sub :: "Time \<Rightarrow> Time \<Rightarrow> Duration" where
  "time_Sub t u = word_of_int (max (- (2 ^ 63)) (min (2 ^ 63 - 1) (t - u)))"

text \<open>\<^verbatim>\<open>time.Since(t)\<close> is \<^verbatim>\<open>time.Now().Sub(t)\<close>.\<close>

definition time_Since :: "clock \<Rightarrow> Time \<Rightarrow> Duration \<times> clock" where
  "time_Since clk t = (let (now, clk') = time_Now clk in (time_Sub now t, clk'))"

datatype ConditionStatus = ConditionTrue | ConditionFalse | ConditionUnknown

text \<open>\<^verbatim>\<open>metav1.Condition\<close>.\<close>

record Condition =
  CondType :: string
  CondStatus :: ConditionStatus
  CondObservedGeneration :: int64
  CondLastTransitionTime :: Time
  CondReason :: string
  CondMessage :: string

text \<open>
  \<^verbatim>\<open>SandboxClaimStatus\<close>. The phase is a string type in the source; the unset phase is
  the empty string.
\<close>

record SandboxClaimStatus =
  ObservedGeneration :: int64
  Phase :: string
  Message :: string
  ClaimStartTime :: "Time option"
  ClaimedReplicas :: int32
  CompletionTime :: "Time option"
  Conditions :: "Condition list"

record SandboxClaimSpec =
  TemplateName :: string
  Replicas :: "int32 option"
  ClaimTimeout :: "Duration option"

text \<open>
  \<^verbatim>\<open>metav1.OwnerReference\<close> and the part of \<^verbatim>\<open>metav1.ObjectMeta\<close> that the code reads.
  Both API objects embed the object metadata.
\<close>

record OwnerReference =
  APIVersion :: string
  Kind :: string
  Controller :: "bool option"

record ObjectMeta =
  Name :: string
  Namespace :: string
  Generation :: int64
  ResourceVersion :: string
  DeletionTimestamp :: "Time option"
  OwnerReferences :: "OwnerReference list"

record SandboxClaim = ObjectMeta +
  Spec :: SandboxClaimSpec

text \<open>The pool descriptor: the code only tests whether it is there.\<close>

datatype SandboxSet = SandboxSetObj

record ClaimArgs =
  Claim :: SandboxClaim
  SandboxSet :: "SandboxSet option"
  NewStatus :: SandboxClaimStatus

text \<open>
  Modelled from the spec: the constants of package \<^verbatim>\<open>api/v1alpha1\<close> and
  \<^verbatim>\<open>DefaultReplicasCount\<close> of package \<^verbatim>\<open>core\<close> are declared outside the given
  sources. The spec names the phases Claiming and Completed, the conditions Completed and
  TimedOut, and gives 1 as the default replica count.
\<close>

definition SandboxClaimPhaseClaiming :: string where
  "SandboxClaimPhaseClaiming = ''Claiming''"

definition SandboxClaimPhaseCompleted :: string where
  "SandboxClaimPhaseCompleted = ''Completed''"

definition SandboxClaimConditionCompleted :: string where
  "SandboxClaimConditionCompleted = ''Completed''"

definition SandboxClaimConditionTimedOut :: string where
  "SandboxClaimConditionTimedOut = ''TimedOut''"

definition DefaultReplicasCount :: int32 where
  "DefaultReplicasCount = 1"

section \<open>Formatting\<close>

text \<open>The verb \<^verbatim>\<open>%d\<close> of \<^verbatim>\<open>fmt.Sprintf\<close>: a signed decimal numeral.\<close>

fun decimal :: "nat \<Rightarrow> string" where
  "decimal n = (if n < 10 then [''0123456789'' ! n]
                else decimal (n div 10) @ [''0123456789'' ! (n mod 10)])"

declare decimal.simps [simp del]

definition fmt_d :: "int \<Rightarrow> string" where
  "fmt_d i = (if i < 0 then ''-'' @ decimal (nat (- i)) else decimal (nat i))"

section \<open>Condition upsert\<close>

text \<open>
  The loop of \<^verbatim>\<open>setCondition\<close>: the index of the first condition of the given type.
\<close>

fun findConditionIndex :: "Condition list \<Rightarrow> string \<Rightarrow> nat option" where
  "findConditionIndex [] t = None"
| "findConditionIndex (x # xs) t =
     (if CondType x = t then Some 0 else map_option Suc (findConditionIndex xs t))"

text \<open>
  \<^verbatim>\<open>setCondition\<close> takes a pointer to a slice: \<open>None\<close> is the nil pointer, and the
  result is the slice the pointer refers to afterwards. A nil slice behind a non-nil
  pointer is the empty list.
\<close>

definition setCondition :: "Condition list option \<Rightarrow> Condition \<Rightarrow> Condition list option" where
  "setCondition conditions newCondition =
     (case conditions of
        None \<Rightarrow> None
      | Some cs \<Rightarrow>
          (case findConditionIndex cs (CondType newCondition) of
             Some i \<Rightarrow> Some (cs[i := newCondition])
           | None \<Rightarrow> Some (cs @ [newCondition])))"

section \<open>Claim status calculation\<close>

definition getDesiredReplicas :: "SandboxClaim \<Rightarrow> int32" where
  "getDesiredReplicas claim =
     (case Replicas (Spec claim) of Some r \<Rightarrow> r | None \<Rightarrow> DefaultReplicasCount)"

definition isClaimTimeout :: "clock \<Rightarrow> SandboxClaim \<Rightarrow> SandboxClaimStatus \<Rightarrow> bool \<times> clock" where
  "isClaimTimeout clk claim status =
     (case ClaimTimeout (Spec claim) of
        None \<Rightarrow> (False, clk)
      | Some timeout \<Rightarrow>
          (case ClaimStartTime status of
             None \<Rightarrow> (False, clk)
           | Some start \<Rightarrow>
               (let (elapsed, clk') = time_Since clk start
                in (timeout \<le>s elapsed, clk'))))"

definition isReplicasMet :: "SandboxClaim \<Rightarrow> SandboxClaimStatus \<Rightarrow> bool" where
  "isReplicasMet claim status = (getDesiredReplicas claim \<le>s ClaimedReplicas status)"

text \<open>
  The status is updated through a pointer in the source; here the updated status is
  returned. \<^verbatim>\<open>&status.Conditions\<close> is never nil.
\<close>

definition storeCondition :: "SandboxClaimStatus \<Rightarrow> Condition \<Rightarrow> SandboxClaimStatus" where
  "storeCondition status condition =
     (case setCondition (Some (Conditions status)) condition of
        Some cs \<Rightarrow> status\<lparr>Conditions := cs\<rparr>
      | None \<Rightarrow> status)"

definition transitionToCompleted ::
  "clock \<Rightarrow> SandboxClaimStatus \<Rightarrow> string \<Rightarrow> string \<Rightarrow> SandboxClaimStatus \<times> clock" where
  "transitionToCompleted clk status reason message =
     (let (now, clk') = time_Now clk;
          status1 = status\<lparr>Phase := SandboxClaimPhaseCompleted, Message := message,
                           CompletionTime := Some now\<rparr>;
          condition = \<lparr>CondType = SandboxClaimConditionCompleted,
                       CondStatus = ConditionTrue,
                       CondObservedGeneration = 0,
                       CondLastTransitionTime = now,
                       CondReason = reason,
                       CondMessage = message\<rparr>
      in (storeCondition status1 condition, clk'))"

text \<open>
  \<^verbatim>\<open>durationString\<close> stands for \<^verbatim>\<open>Duration.String\<close> of the Go standard library, the
  rendering of the verb \<^verbatim>\<open>%v\<close> for a duration.
\<close>

definition transitionToCompletedWithTimeout ::
  "(Duration \<Rightarrow> string) \<Rightarrow> clock \<Rightarrow> SandboxClaimStatus \<Rightarrow> Duration \<Rightarrow> SandboxClaim
     \<Rightarrow> SandboxClaimStatus \<times> clock" where
  "transitionToCompletedWithTimeout durationString clk status elapsed claim =
     (let desiredReplicas = getDesiredReplicas claim;
          counts = fmt_d (sint (ClaimedReplicas status)) @ ''/'' @ fmt_d (sint desiredReplicas);
          message = ''Timeout reached after '' @ durationString elapsed @ '', claimed ''
                      @ counts @ '' sandboxes'';
          (now, clk') = time_Now clk;
          status1 = status\<lparr>Phase := SandboxClaimPhaseCompleted, Message := message,
                           CompletionTime := Some now\<rparr>;
          condition = \<lparr>CondType = SandboxClaimConditionTimedOut,
                       CondStatus = ConditionTrue,
                       CondObservedGeneration = 0,
                       CondLastTransitionTime = now,
                       CondReason = ''ClaimTimeoutReached'',
                       CondMessage = ''Timeout after '' @ durationString elapsed @ '', claimed ''
                                       @ counts\<rparr>;
          status2 = storeCondition status1 condition;
          completedCondition = \<lparr>CondType = SandboxClaimConditionCompleted,
                                CondStatus = ConditionTrue,
                                CondObservedGeneration = 0,
                                CondLastTransitionTime = now,
                                CondReason = ''TimeoutReached'',
                                CondMessage = Message status2\<rparr>
      in (storeCondition status2 completedCondition, clk'))"

definition transitionToCompletedWithSuccess ::
  "clock \<Rightarrow> SandboxClaimStatus \<Rightarrow> SandboxClaim \<Rightarrow> SandboxClaimStatus \<times> clock" where
  "transitionToCompletedWithSuccess clk status claim =
     (let desiredReplicas = getDesiredReplicas claim;
          message = ''Successfully claimed '' @ fmt_d (sint (ClaimedReplicas status)) @ ''/''
                      @ fmt_d (sint desiredReplicas) @ '' sandboxes'';
          (now, clk') = time_Now clk;
          status1 = status\<lparr>Phase := SandboxClaimPhaseCompleted, Message := message,
                           CompletionTime := Some now\<rparr>;
          condition = \<lparr>CondType = SandboxClaimConditionCompleted,
                       CondStatus = ConditionTrue,
                       CondObservedGeneration = 0,
                       CondLastTransitionTime = now,
                       CondReason = ''AllReplicasClaimed'',
                       CondMessage = ''Successfully claimed all ''
                                       @ fmt_d (sint (ClaimedReplicas status)) @ '' sandboxes''\<rparr>
      in (storeCondition status1 condition, clk'))"

text \<open>
  \<^verbatim>\<open>CalculateClaimStatus\<close> returns the new status and \<^verbatim>\<open>skipBusinessLogic\<close>, and the
  clock it leaves behind. The result \<open>None\<close> is the nil-pointer panic of reading
  \<^verbatim>\<open>newStatus.ClaimStartTime.Time\<close> in step 4 when there is no start time.
\<close>

definition CalculateClaimStatus ::
  "(Duration \<Rightarrow> string) \<Rightarrow> clock \<Rightarrow> ClaimArgs \<Rightarrow> (SandboxClaimStatus \<times> bool) option \<times> clock" where
  "CalculateClaimStatus durationString clk args =
     (let claim = Claim args;
          newStatus = (NewStatus args)\<lparr>ObservedGeneration := Generation claim\<rparr>
      in if Phase newStatus = '''' then
           (let (now, clk1) = time_Now clk
            in (Some (newStatus\<lparr>Phase := SandboxClaimPhaseClaiming,
                                 ClaimStartTime := Some now\<rparr>, False), clk1))
         else if Phase newStatus = SandboxClaimPhaseCompleted then
           (Some (newStatus, False), clk)
         else if SandboxSet args = None then
           (let (status, clk1) = transitionToCompleted clk newStatus ''SandboxSetNotFound''
                                   ''SandboxSet not found or deleted''
            in (Some (status, True), clk1))
         else
           (let (timedOut, clk1) = isClaimTimeout clk claim newStatus
            in if timedOut then
                 (case ClaimStartTime newStatus of
                    None \<Rightarrow> (None, clk1)
                  | Some start \<Rightarrow>
                      (let (elapsed, clk2) = time_Since clk1 start;
                           (status, clk3) = transitionToCompletedWithTimeout durationString clk2
                                              newStatus elapsed claim
                       in (Some (status, True), clk3)))
               else if isReplicasMet claim newStatus then
                 (let (status, clk2) = transitionToCompletedWithSuccess clk1 newStatus claim
                  in (Some (status, True), clk2))
               else (Some (newStatus, False), clk1)))"

section \<open>Sandbox state classification\<close>

record SandboxSpec =
  ShutdownTime :: "Time option"
  Paused :: bool

record PodInfo =
  PodIP :: string

record SandboxStatus =
  SandboxPhase :: string
  SandboxPodInfo :: PodInfo
  SandboxConditions :: "Condition list"

record Sandbox = ObjectMeta +
  SbxSpec :: SandboxSpec
  SbxStatus :: SandboxStatus

text \<open>
  Modelled from the spec: the lifecycle phases, the derived states and the name of the
  Ready condition are constants of package \<^verbatim>\<open>api/v1alpha1\<close>, declared outside the
  given sources. The spec names the phases pending, running, succeeded, failed and
  terminating, the states Creating, Available, Running, Paused and Dead, and the
  condition Ready. Only their being different strings matters below.
\<close>

definition SandboxPending :: string where "SandboxPending = ''Pending''"
definition SandboxRunning :: string where "SandboxRunning = ''Running''"
definition SandboxSucceeded :: string where "SandboxSucceeded = ''Succeeded''"
definition SandboxFailed :: string where "SandboxFailed = ''Failed''"
definition SandboxTerminating :: string where "SandboxTerminating = ''Terminating''"

definition SandboxStateCreating :: string where "SandboxStateCreating = ''Creating''"
definition SandboxStateAvailable :: string where "SandboxStateAvailable = ''Available''"
definition SandboxStateRunning :: string where "SandboxStateRunning = ''Running''"
definition SandboxStatePaused :: string where "SandboxStatePaused = ''Paused''"
definition SandboxStateDead :: string where "SandboxStateDead = ''Dead''"

definition SandboxConditionReady :: string where "SandboxConditionReady = ''Ready''"

text \<open>
  What the classification uses from outside the given sources and the spec does not fix:
  the kind and the group version of \<^verbatim>\<open>SandboxSetControllerKind\<close>, and
  \<^verbatim>\<open>utils.GetSandboxCondition\<close>, the lookup of a condition by its type.
\<close>

record Externals =
  SandboxSetKind :: string
  SandboxSetGroupVersion :: string
  GetSandboxCondition :: "SandboxStatus \<Rightarrow> string \<Rightarrow> Condition option"

text \<open>
  \<^verbatim>\<open>metav1.GetControllerOfNoCopy\<close>: the first owner reference whose controller flag is
  set and true.
\<close>

fun GetControllerOfNoCopy :: "OwnerReference list \<Rightarrow> OwnerReference option" where
  "GetControllerOfNoCopy [] = None"
| "GetControllerOfNoCopy (r # refs) =
     (if Controller r = Some True then Some r else GetControllerOfNoCopy refs)"

definition IsControlledBySandboxCR :: "Externals \<Rightarrow> Sandbox \<Rightarrow> bool" where
  "IsControlledBySandboxCR ext sbx =
     (case GetControllerOfNoCopy (OwnerReferences sbx) of
        None \<Rightarrow> False
      | Some controller \<Rightarrow>
          Kind controller = SandboxSetKind ext \<and>
          APIVersion controller = SandboxSetGroupVersion ext)"

definition IsSandboxReady :: "Externals \<Rightarrow> Sandbox \<Rightarrow> bool" where
  "IsSandboxReady ext sbx =
     (if PodIP (SandboxPodInfo (SbxStatus sbx)) = '''' then False
      else (case GetSandboxCondition ext (SbxStatus sbx) SandboxConditionReady of
              None \<Rightarrow> False
            | Some readyCond \<Rightarrow> CondStatus readyCond = ConditionTrue))"

text \<open>
  The test \<^verbatim>\<open>sbx.Spec.ShutdownTime != nil && time.Since(...) > 0\<close>: the clock is read only
  when a shutdown time is set.
\<close>

definition shutdownTimeReached :: "clock \<Rightarrow> Sandbox \<Rightarrow> bool \<times> clock" where
  "shutdownTimeReached clk sbx =
     (case ShutdownTime (SbxSpec sbx) of
        None \<Rightarrow> (False, clk)
      | Some t \<Rightarrow> (let (elapsed, clk') = time_Since clk t in (0 <s elapsed, clk')))"

definition computeSandboxState :: "Externals \<Rightarrow> clock \<Rightarrow> Sandbox \<Rightarrow> (string \<times> string) \<times> clock" where
  "computeSandboxState ext clk sbx =
     (if DeletionTimestamp sbx \<noteq> None then ((SandboxStateDead, ''ResourceDeleted''), clk)
      else
        (let (reached, clk1) = shutdownTimeReached clk sbx
         in if reached then ((SandboxStateDead, ''ShutdownTimeReached''), clk1)
            else if SandboxPhase (SbxStatus sbx) = SandboxPending then
              ((SandboxStateCreating, ''ResourcePending''), clk1)
            else if SandboxPhase (SbxStatus sbx) = SandboxSucceeded then
              ((SandboxStateDead, ''ResourceSucceeded''), clk1)
            else if SandboxPhase (SbxStatus sbx) = SandboxFailed then
              ((SandboxStateDead, ''ResourceFailed''), clk1)
            else if SandboxPhase (SbxStatus sbx) = SandboxTerminating then
              ((SandboxStateDead, ''ResourceTerminating''), clk1)
            else
              (let sandboxReady = IsSandboxReady ext sbx
               in if IsControlledBySandboxCR ext sbx then
                    (if sandboxReady then
                       ((SandboxStateAvailable, ''ResourceControlledBySbsAndReady''), clk1)
                     else ((SandboxStateCreating, ''ResourceControlledBySbsButNotReady''), clk1))
                  else if SandboxPhase (SbxStatus sbx) = SandboxRunning then
                    (if Paused (SbxSpec sbx) then
                       ((SandboxStatePaused, ''RunningResourceClaimedAndPaused''), clk1)
                     else if sandboxReady then
                       ((SandboxStateRunning, ''RunningResourceClaimedAndReady''), clk1)
                     else ((SandboxStateDead, ''RunningResourceClaimedButNotReady''), clk1))
                  else ((SandboxStatePaused, ''NotRunningResourceClaimed''), clk1))))"

section \<open>Sandbox state cache\<close>

text \<open>
  \<^verbatim>\<open>sandboxStateCache\<close> is a \<^verbatim>\<open>sync.Map\<close>: keys and values are of any dynamic type.
  The code stores string keys and pointers to cache entries; a key or value of another
  type is kept apart. The cache is passed in and returned; calls run one at a time.
\<close>

datatype cacheKey = StringKey string | OtherKey nat

datatype cacheValue = CacheEntry string string | OtherValue nat

type_synonym stateCache = "cacheKey \<rightharpoonup> cacheValue"

definition LoadOrStore ::
  "stateCache \<Rightarrow> cacheKey \<Rightarrow> cacheValue \<Rightarrow> (cacheValue \<times> bool) \<times> stateCache" where
  "LoadOrStore cache key v =
     (case cache key of
        Some actual \<Rightarrow> ((actual, True), cache)
      | None \<Rightarrow> ((v, False), cache(key \<mapsto> v)))"

definition GetSandboxState ::
  "Externals \<Rightarrow> clock \<Rightarrow> stateCache \<Rightarrow> Sandbox \<Rightarrow> (string \<times> string) \<times> clock \<times> stateCache" where
  "GetSandboxState ext clk cache sbx =
     (let resourceVersion = ResourceVersion sbx
      in if resourceVersion = '''' then
           (let (r, clk1) = computeSandboxState ext clk sbx in (r, clk1, cache))
         else
           (let cacheKey = StringKey (Namespace sbx @ ''/'' @ Name sbx @ ''/'' @ resourceVersion)
            in case cache cacheKey of
                 Some (CacheEntry state reason) \<Rightarrow> ((state, reason), clk, cache)
               | Some (OtherValue _) \<Rightarrow>
                   (let (r, clk1) = computeSandboxState ext clk sbx in (r, clk1, cache))
               | None \<Rightarrow>
                   (let ((state, reason), clk1) = computeSandboxState ext clk sbx;
                        ((actual, loaded), cache1) =
                           LoadOrStore cache cacheKey (CacheEntry state reason)
                    in if loaded then
                         (case actual of
                            CacheEntry state' reason' \<Rightarrow> ((state', reason'), clk1, cache1)
                          | OtherValue _ \<Rightarrow> ((state, reason), clk1, cache1))
                       else ((state, reason), clk1, cache1))))"

definition DeleteSandboxCache :: "string \<Rightarrow> string \<Rightarrow> stateCache \<Rightarrow> stateCache" where
  "DeleteSandboxCache namespace name cache =
     (if namespace = '''' \<or> name = '''' then cache
      else
        (let baseKey = namespace @ ''/'' @ name @ ''/''
         in (\<lambda>key. case key of
                      StringKey keyStr \<Rightarrow> if prefix baseKey keyStr then None else cache key
                    | OtherKey _ \<Rightarrow> cache key)))"

section \<open>Validating webhook\<close>

datatype Operation = Create | Update | Delete | Connect

text \<open>
  The admission request carries the new and the old object undecoded; the decoder turns
  one into a claim or fails with an error message.
\<close>

record AdmissionRequest =
  ReqOperation :: Operation
  Object :: string
  OldObject :: string

datatype Response = Allowed string | Denied string | Errored nat string

definition StatusBadRequest :: nat where
  "StatusBadRequest = 400"

definition handleCreate :: "(string \<Rightarrow> string + SandboxClaim) \<Rightarrow> AdmissionRequest \<Rightarrow> Response" where
  "handleCreate decode req =
     (case decode (Object req) of
        Inl err \<Rightarrow> Errored StatusBadRequest err
      | Inr claim \<Rightarrow> Allowed '''')"

definition handleUpdate :: "(string \<Rightarrow> string + SandboxClaim) \<Rightarrow> AdmissionRequest \<Rightarrow> Response" where
  "handleUpdate decode req =
     (case decode (OldObject req) of
        Inl err \<Rightarrow> Errored StatusBadRequest (''failed to decode old object: '' @ err)
      | Inr oldClaim \<Rightarrow>
          (case decode (Object req) of
             Inl err \<Rightarrow> Errored StatusBadRequest (''failed to decode new object: '' @ err)
           | Inr newClaim \<Rightarrow>
               (let oldReplicas = (case Replicas (Spec oldClaim) of Some r \<Rightarrow> r | None \<Rightarrow> 1);
                    newReplicas = (case Replicas (Spec newClaim) of Some r \<Rightarrow> r | None \<Rightarrow> 1)
                in if oldReplicas \<noteq> newReplicas then
                     Denied (''spec.replicas is immutable, cannot change from ''
                               @ fmt_d (sint oldReplicas) @ '' to '' @ fmt_d (sint newReplicas))
                   else Allowed '''')))"

definition Handle :: "(string \<Rightarrow> string + SandboxClaim) \<Rightarrow> AdmissionRequest \<Rightarrow> Response" where
  "Handle decode req =
     (case ReqOperation req of
        Create \<Rightarrow> handleCreate decode req
      | Update \<Rightarrow> handleUpdate decode req
      | Delete \<Rightarrow> Allowed ''''
      | Connect \<Rightarrow> Errored StatusBadRequest ''unsupported operation: CONNECT'')"

section \<open>Notions used in the statements\<close>

text \<open>The parts of a status that no clock reading enters.\<close>

definition timeless :: "SandboxClaimStatus \<Rightarrow> int64 \<times> string \<times> int32 \<times> string list" where
  "timeless s = (ObservedGeneration s, Phase s, ClaimedReplicas s, map CondType (Conditions s))"

text \<open>The place of a phase in the order unset, Claiming, Completed.\<close>

definition phaseRank :: "string \<Rightarrow> nat" where
  "phaseRank p = (if p = '''' then 0 else if p = SandboxClaimPhaseCompleted then 2 else 1)"

text \<open>
  Successive applications: each step has its own clock, claim and pool descriptor, and
  reads the status the step before returned. The phases seen, the first one included.
\<close>

fun successivePhases ::
  "(Duration \<Rightarrow> string) \<Rightarrow> (clock \<times> SandboxClaim \<times> SandboxSet option) list
     \<Rightarrow> SandboxClaimStatus \<Rightarrow> string list" where
  "successivePhases ds [] status = [Phase status]"
| "successivePhases ds ((clk, claim, sbs) # steps) status =
     Phase status #
     (case fst (CalculateClaimStatus ds clk \<lparr>Claim = claim, SandboxSet = sbs, NewStatus = status\<rparr>) of
        None \<Rightarrow> []
      | Some (status', skip) \<Rightarrow> successivePhases ds steps status')"

section \<open>Example values\<close>

definition exampleCondition :: "string \<Rightarrow> string \<Rightarrow> Condition" where
  "exampleCondition t r =
     \<lparr>CondType = t, CondStatus = ConditionTrue, CondObservedGeneration = 0,
      CondLastTransitionTime = 0, CondReason = r, CondMessage = ''''\<rparr>"

definition exampleClaim :: "int32 option \<Rightarrow> Duration option \<Rightarrow> SandboxClaim" where
  "exampleClaim replicas timeout =
     \<lparr>Name = ''claim'', Namespace = ''default'', Generation = 1, ResourceVersion = ''1'',
      DeletionTimestamp = None, OwnerReferences = [],
      Spec = \<lparr>TemplateName = ''pool'', Replicas = replicas, ClaimTimeout = timeout\<rparr>\<rparr>"

definition exampleStatus :: "string \<Rightarrow> Time option \<Rightarrow> int32 \<Rightarrow> SandboxClaimStatus" where
  "exampleStatus phase start claimed =
     \<lparr>ObservedGeneration = 0, Phase = phase, Message = '''', ClaimStartTime = start,
      ClaimedReplicas = claimed, CompletionTime = None, Conditions = []\<rparr>"

definition tickingClock :: "Time \<Rightarrow> Time \<Rightarrow> clock" where
  "tickingClock t0 step n = t0 + step * int n"

definition nanosecondsString :: "Duration \<Rightarrow> string" where
  "nanosecondsString d = fmt_d (sint d) @ ''ns''"

definition exampleArgs ::
  "int32 option \<Rightarrow> Duration option \<Rightarrow> SandboxSet option \<Rightarrow> string \<Rightarrow> Time option \<Rightarrow> int32
     \<Rightarrow> ClaimArgs" where
  "exampleArgs replicas timeout sbs phase start claimed =
     \<lparr>Claim = exampleClaim replicas timeout, SandboxSet = sbs,
      NewStatus = exampleStatus phase start claimed\<rparr>"

definition exampleDecode :: "string \<Rightarrow> string + SandboxClaim" where
  "exampleDecode raw =
     (if raw = ''unset'' then Inr (exampleClaim None None)
      else if raw = ''one'' then Inr (exampleClaim (Some 1) None)
      else if raw = ''two'' then Inr (exampleClaim (Some 2) None)
      else Inl ''cannot decode'')"

definition exampleSandbox ::
  "string \<Rightarrow> string \<Rightarrow> bool \<Rightarrow> string \<Rightarrow> Condition list \<Rightarrow> Sandbox" where
  "exampleSandbox version phase paused ip conditions =
     \<lparr>Name = ''sbx'', Namespace = ''default'', Generation = 1, ResourceVersion = version,
      DeletionTimestamp = None, OwnerReferences = [],
      SbxSpec = \<lparr>ShutdownTime = None, Paused = paused\<rparr>,
      SbxStatus = \<lparr>SandboxPhase = phase, SandboxPodInfo = \<lparr>PodIP = ip\<rparr>,
                   SandboxConditions = conditions\<rparr>\<rparr>"

definition exampleExternals :: Externals where
  "exampleExternals =
     \<lparr>SandboxSetKind = ''SandboxSet'', SandboxSetGroupVersion = ''agents.kruise.io/v1alpha1'',
      GetSandboxCondition = (\<lambda>status t. find (\<lambda>c. CondType c = t) (SandboxConditions status))\<rparr>"

definition exampleCache :: stateCache where
  "exampleCache = [StringKey ''default/sbx/'' \<mapsto> CacheEntry SandboxStatePaused ''stale'',
                   StringKey ''/sbx/7'' \<mapsto> CacheEntry SandboxStateRunning ''kept'']"

section \<open>Condition upsert: properties\<close>

lemma findConditionIndex_None_iff:
  "findConditionIndex cs t = None \<longleftrightarrow> t \<notin> CondType ` set cs"
  by (induction cs) auto

lemma findConditionIndex_Some_first:
  "findConditionIndex cs t = Some i \<Longrightarrow>
     i < length cs \<and> CondType (cs ! i) = t \<and> (\<forall>j<i. CondType (cs ! j) \<noteq> t)"
proof (induction cs arbitrary: i)
  case Nil
  then show ?case by simp
next
  case (Cons x xs)
  show ?case
  proof (cases "CondType x = t")
    case True
    with Cons.prems show ?thesis by simp
  next
    case False
    with Cons.prems obtain k where k: "findConditionIndex xs t = Some k" "i = Suc k"
      by auto
    from Cons.IH [OF k(1)] False k(2) show ?thesis
      by (auto simp: nth_Cons split: nat.splits)
  qed
qed

lemma distinct_types_update:
  assumes "distinct (map CondType cs)" "i < length cs" "CondType (cs ! i) = CondType c"
  shows "distinct (map CondType (cs[i := c]))"
proof -
  have "map CondType (cs[i := c]) = (map CondType cs)[i := CondType c]"
    by (simp add: map_update)
  also have "\<dots> = map CondType cs"
    using assms(2,3) by (metis length_map list_update_id nth_map)
  finally show ?thesis using assms(1) by simp
qed

text \<open>
  C6. \<^verbatim>\<open>setCondition\<close> through a nil pointer changes nothing. On a list that has a
  condition of the new condition's type, it overwrites the first such entry in place: the
  length and every other entry stay as they were. Otherwise it appends the new condition
  at the end. A list with at most one condition per type keeps that property.
\<close>

theorem setCondition_upsert:
  "setCondition None c = None \<and>
   (CondType c \<in> CondType ` set cs \<longrightarrow>
      (\<exists>i r. setCondition (Some cs) c = Some r \<and> i < length cs \<and>
             CondType (cs ! i) = CondType c \<and> (\<forall>j<i. CondType (cs ! j) \<noteq> CondType c) \<and>
             length r = length cs \<and> r ! i = c \<and> (\<forall>j<length cs. j \<noteq> i \<longrightarrow> r ! j = cs ! j))) \<and>
   (CondType c \<notin> CondType ` set cs \<longrightarrow> setCondition (Some cs) c = Some (cs @ [c])) \<and>
   (distinct (map CondType cs) \<longrightarrow>
      (\<exists>r. setCondition (Some cs) c = Some r \<and> distinct (map CondType r)))"
proof (intro conjI impI)
  show "setCondition None c = None" by (simp add: setCondition_def)
next
  assume mem: "CondType c \<in> CondType ` set cs"
  then obtain i where i: "findConditionIndex cs (CondType c) = Some i"
    using findConditionIndex_None_iff [of cs "CondType c"] by auto
  note first = findConditionIndex_Some_first [OF i]
  have "setCondition (Some cs) c = Some (cs[i := c])"
    by (simp add: setCondition_def i)
  with first show "\<exists>i r. setCondition (Some cs) c = Some r \<and> i < length cs \<and>
             CondType (cs ! i) = CondType c \<and> (\<forall>j<i. CondType (cs ! j) \<noteq> CondType c) \<and>
             length r = length cs \<and> r ! i = c \<and> (\<forall>j<length cs. j \<noteq> i \<longrightarrow> r ! j = cs ! j)"
    by (intro exI [of _ i] exI [of _ "cs[i := c]"]) simp
next
  assume "CondType c \<notin> CondType ` set cs"
  then show "setCondition (Some cs) c = Some (cs @ [c])"
    by (simp add: setCondition_def findConditionIndex_None_iff [symmetric])
next
  assume d: "distinct (map CondType cs)"
  show "\<exists>r. setCondition (Some cs) c = Some r \<and> distinct (map CondType r)"
  proof (cases "findConditionIndex cs (CondType c)")
    case None
    then have "CondType c \<notin> CondType ` set cs" by (simp add: findConditionIndex_None_iff)
    with d None show ?thesis by (simp add: setCondition_def)
  next
    case (Some i)
    from findConditionIndex_Some_first [OF Some] d
    have "distinct (map CondType (cs[i := c]))" by (simp add: distinct_types_update)
    with Some show ?thesis by (simp add: setCondition_def)
  qed
qed

theorem setCondition_upsert_witness:
  "CondType (exampleCondition ''B'' ''new'')
     \<in> CondType ` set [exampleCondition ''A'' ''a'', exampleCondition ''B'' ''old''] \<and>
   CondType (exampleCondition ''C'' ''new'')
     \<notin> CondType ` set [exampleCondition ''A'' ''a'', exampleCondition ''B'' ''old''] \<and>
   distinct (map CondType [exampleCondition ''A'' ''a'', exampleCondition ''B'' ''old'']) \<and>
   setCondition (Some [exampleCondition ''A'' ''a'', exampleCondition ''B'' ''old''])
       (exampleCondition ''B'' ''new'')
     = Some [exampleCondition ''A'' ''a'', exampleCondition ''B'' ''new''] \<and>
   setCondition (Some [exampleCondition ''A'' ''a'', exampleCondition ''B'' ''old''])
       (exampleCondition ''C'' ''new'')
     = Some [exampleCondition ''A'' ''a'', exampleCondition ''B'' ''old'',
             exampleCondition ''C'' ''new'']"
  using setCondition_upsert [of "exampleCondition ''B'' ''new''"
          "[exampleCondition ''A'' ''a'', exampleCondition ''B'' ''old'']"]
        setCondition_upsert [of "exampleCondition ''C'' ''new''"
          "[exampleCondition ''A'' ''a'', exampleCondition ''B'' ''old'']"]
  by (simp add: exampleCondition_def setCondition_def)

section \<open>Claim status calculation: properties\<close>

lemma storeCondition_fields [simp]:
  "ObservedGeneration (storeCondition s c) = ObservedGeneration s"
  "Phase (storeCondition s c) = Phase s"
  "Message (storeCondition s c) = Message s"
  "ClaimStartTime (storeCondition s c) = ClaimStartTime s"
  "ClaimedReplicas (storeCondition s c) = ClaimedReplicas s"
  "CompletionTime (storeCondition s c) = CompletionTime s"
  by (simp_all add: storeCondition_def setCondition_def split: option.splits)

lemma find_upsert:
  "find (\<lambda>x. CondType x = CondType c)
     (case findConditionIndex cs (CondType c) of Some i \<Rightarrow> cs[i := c] | None \<Rightarrow> cs @ [c]) = Some c"
  by (induction cs) (auto split: option.splits)

lemma storeCondition_Conditions:
  "Conditions (storeCondition s c) =
     (case findConditionIndex (Conditions s) (CondType c) of
        Some i \<Rightarrow> (Conditions s)[i := c] | None \<Rightarrow> Conditions s @ [c])"
  by (simp add: storeCondition_def setCondition_def split: option.splits)

lemma storeCondition_find:
  "find (\<lambda>x. CondType x = CondType c) (Conditions (storeCondition s c)) = Some c"
  by (simp only: storeCondition_Conditions find_upsert)

lemma types_upsert:
  "map CondType (case findConditionIndex cs (CondType c) of Some i \<Rightarrow> cs[i := c] | None \<Rightarrow> cs @ [c])
     = (if CondType c \<in> set (map CondType cs) then map CondType cs else map CondType cs @ [CondType c])"
proof (cases "findConditionIndex cs (CondType c)")
  case None
  then have "CondType c \<notin> CondType ` set cs" by (simp add: findConditionIndex_None_iff)
  with None show ?thesis by simp
next
  case (Some i)
  from findConditionIndex_Some_first [OF Some]
  have i: "i < length cs" "CondType (cs ! i) = CondType c" by simp_all
  then have "CondType c \<in> CondType ` set cs" by (metis imageI nth_mem)
  moreover have "map CondType (cs[i := c]) = map CondType cs"
    using i by (simp add: map_update) (metis length_map list_update_id nth_map)
  ultimately show ?thesis using Some by simp
qed

lemma storeCondition_types:
  "map CondType (Conditions (storeCondition s c))
     = (if CondType c \<in> set (map CondType (Conditions s)) then map CondType (Conditions s)
        else map CondType (Conditions s) @ [CondType c])"
  by (simp only: storeCondition_Conditions types_upsert)

lemma transitionToCompleted_eq:
  "transitionToCompleted clk s reason message =
     (storeCondition
        (s\<lparr>Phase := SandboxClaimPhaseCompleted, Message := message, CompletionTime := Some (clk 0)\<rparr>)
        \<lparr>CondType = SandboxClaimConditionCompleted, CondStatus = ConditionTrue,
         CondObservedGeneration = 0, CondLastTransitionTime = clk 0,
         CondReason = reason, CondMessage = message\<rparr>,
      \<lambda>n. clk (Suc n))"
  by (simp add: transitionToCompleted_def time_Now_def Let_def)

lemma transitionToCompletedWithSuccess_eq:
  "transitionToCompletedWithSuccess clk s claim =
     (storeCondition
        (s\<lparr>Phase := SandboxClaimPhaseCompleted,
           Message := ''Successfully claimed '' @ fmt_d (sint (ClaimedReplicas s)) @ ''/''
                      @ fmt_d (sint (getDesiredReplicas claim)) @ '' sandboxes'',
           CompletionTime := Some (clk 0)\<rparr>)
        \<lparr>CondType = SandboxClaimConditionCompleted, CondStatus = ConditionTrue,
         CondObservedGeneration = 0, CondLastTransitionTime = clk 0,
         CondReason = ''AllReplicasClaimed'',
         CondMessage = ''Successfully claimed all '' @ fmt_d (sint (ClaimedReplicas s))
                         @ '' sandboxes''\<rparr>,
      \<lambda>n. clk (Suc n))"
  by (simp add: transitionToCompletedWithSuccess_def time_Now_def Let_def)

lemma phase_constants [simp]:
  "SandboxClaimPhaseClaiming \<noteq> ''''" "SandboxClaimPhaseCompleted \<noteq> ''''"
  "'''' \<noteq> SandboxClaimPhaseClaiming" "'''' \<noteq> SandboxClaimPhaseCompleted"
  "SandboxClaimPhaseClaiming \<noteq> SandboxClaimPhaseCompleted"
  "SandboxClaimPhaseCompleted \<noteq> SandboxClaimPhaseClaiming"
  by (simp_all add: SandboxClaimPhaseClaiming_def SandboxClaimPhaseCompleted_def)

text \<open>
  C1, as amended. When the phase is Claiming and the pool descriptor is absent,
  \<^verbatim>\<open>CalculateClaimStatus\<close> returns with \<^verbatim>\<open>skipBusinessLogic\<close> true a status whose phase
  is Completed, whose completion time is the clock reading of the call, and whose
  Completed condition is true with that reading as transition time. The reason of the
  condition is the string \<^verbatim>\<open>SandboxSetNotFound\<close>.
\<close>

theorem pool_absent_completes:
  assumes "Phase (NewStatus args) = SandboxClaimPhaseClaiming"
      and "SandboxSet args = None"
  shows "\<exists>status. CalculateClaimStatus durationString clk args
                     = (Some (status, True), snd (time_Now clk)) \<and>
           Phase status = SandboxClaimPhaseCompleted \<and>
           CompletionTime status = Some (fst (time_Now clk)) \<and>
           find (\<lambda>c. CondType c = SandboxClaimConditionCompleted) (Conditions status)
             = Some \<lparr>CondType = SandboxClaimConditionCompleted, CondStatus = ConditionTrue,
                     CondObservedGeneration = 0, CondLastTransitionTime = fst (time_Now clk),
                     CondReason = ''SandboxSetNotFound'',
                     CondMessage = ''SandboxSet not found or deleted''\<rparr>"
  using assms
    storeCondition_find [of "\<lparr>CondType = SandboxClaimConditionCompleted, CondStatus = ConditionTrue,
                     CondObservedGeneration = 0, CondLastTransitionTime = fst (time_Now clk),
                     CondReason = ''SandboxSetNotFound'',
                     CondMessage = ''SandboxSet not found or deleted''\<rparr>"]
  by (simp add: CalculateClaimStatus_def transitionToCompleted_eq time_Now_def Let_def)

lemmas example_defs = exampleClaim_def exampleStatus_def tickingClock_def nanosecondsString_def
  SandboxClaimPhaseClaiming_def SandboxClaimPhaseCompleted_def SandboxClaimConditionCompleted_def
  SandboxClaimConditionTimedOut_def

lemma pool_absent_example:
  "CalculateClaimStatus nanosecondsString (tickingClock 100 10)
     \<lparr>Claim = exampleClaim None None, SandboxSet = None,
      NewStatus = exampleStatus SandboxClaimPhaseClaiming (Some 0) 0\<rparr>
   = (Some (\<lparr>ObservedGeneration = 1, Phase = ''Completed'',
             Message = ''SandboxSet not found or deleted'', ClaimStartTime = Some 0,
             ClaimedReplicas = 0, CompletionTime = Some 100,
             Conditions = [\<lparr>CondType = ''Completed'', CondStatus = ConditionTrue,
                            CondObservedGeneration = 0, CondLastTransitionTime = 100,
                            CondReason = ''SandboxSetNotFound'',
                            CondMessage = ''SandboxSet not found or deleted''\<rparr>]\<rparr>, True),
      tickingClock 110 10)"
  by (simp add: CalculateClaimStatus_def transitionToCompleted_def storeCondition_def
      setCondition_def time_Now_def Let_def example_defs fun_eq_iff)

text \<open>
  C1 as stated asks for the reason \<^verbatim>\<open>PoolNotFound\<close>; no condition of the returned status
  carries it.
\<close>

theorem pool_absent_reason_counterexample:
  "\<not> (\<exists>status.
        fst (CalculateClaimStatus nanosecondsString (tickingClock 100 10)
               \<lparr>Claim = exampleClaim None None, SandboxSet = None,
                NewStatus = exampleStatus SandboxClaimPhaseClaiming (Some 0) 0\<rparr>)
          = Some (status, True) \<and>
        Phase status = SandboxClaimPhaseCompleted \<and>
        CompletionTime status = Some 100 \<and>
        (\<exists>c \<in> set (Conditions status).
           CondType c = SandboxClaimConditionCompleted \<and> CondStatus c = ConditionTrue \<and>
           CondReason c = ''PoolNotFound''))"
  by (simp add: pool_absent_example)

theorem pool_absent_completes_witness:
  "Phase (NewStatus \<lparr>Claim = exampleClaim None None, SandboxSet = None,
                     NewStatus = exampleStatus SandboxClaimPhaseClaiming (Some 0) 0\<rparr>)
     = SandboxClaimPhaseClaiming \<and>
   SandboxSet \<lparr>Claim = exampleClaim None None, SandboxSet = None,
               NewStatus = exampleStatus SandboxClaimPhaseClaiming (Some 0) 0\<rparr> = None \<and>
   (\<exists>status.
      CalculateClaimStatus nanosecondsString (tickingClock 100 10)
        \<lparr>Claim = exampleClaim None None, SandboxSet = None,
         NewStatus = exampleStatus SandboxClaimPhaseClaiming (Some 0) 0\<rparr>
        = (Some (status, True), snd (time_Now (tickingClock 100 10))) \<and>
      Phase status = SandboxClaimPhaseCompleted \<and>
      CompletionTime status = Some (fst (time_Now (tickingClock 100 10))) \<and>
      find (\<lambda>c. CondType c = SandboxClaimConditionCompleted) (Conditions status)
        = Some \<lparr>CondType = SandboxClaimConditionCompleted, CondStatus = ConditionTrue,
                CondObservedGeneration = 0,
                CondLastTransitionTime = fst (time_Now (tickingClock 100 10)),
                CondReason = ''SandboxSetNotFound'',
                CondMessage = ''SandboxSet not found or deleted''\<rparr>) \<and>
   fst (time_Now (tickingClock 100 10)) = 100"
proof -
  let ?args = "\<lparr>Claim = exampleClaim None None, SandboxSet = None,
                 NewStatus = exampleStatus SandboxClaimPhaseClaiming (Some 0) 0\<rparr>"
  have h1: "Phase (NewStatus ?args) = SandboxClaimPhaseClaiming"
    by (simp add: exampleStatus_def)
  have h2: "SandboxSet ?args = None" by simp
  have h3: "fst (time_Now (tickingClock 100 10)) = 100"
    by (simp add: time_Now_def tickingClock_def)
  show ?thesis
    by (rule conjI [OF h1 conjI [OF h2 conjI [OF
          pool_absent_completes [OF h1 h2, of nanosecondsString "tickingClock 100 10"] h3]]])
qed

lemma isClaimTimeout_ObservedGeneration [simp]:
  "isClaimTimeout clk claim (s\<lparr>ObservedGeneration := g\<rparr>) = isClaimTimeout clk claim s"
  by (simp add: isClaimTimeout_def split: option.splits)

lemma isReplicasMet_ObservedGeneration [simp]:
  "isReplicasMet claim (s\<lparr>ObservedGeneration := g\<rparr>) = isReplicasMet claim s"
  by (simp add: isReplicasMet_def)

lemma isClaimTimeout_start:
  "fst (isClaimTimeout clk claim s) \<Longrightarrow> ClaimStartTime s \<noteq> None"
  by (auto simp: isClaimTimeout_def split: option.splits)

text \<open>
  C5. Phase Claiming, pool descriptor present, timeout check not firing: with the desired
  count read from \<^verbatim>\<open>claim.Spec.Replicas\<close>, or 1 when that is unset, the call returns
  \<^verbatim>\<open>skipBusinessLogic\<close> true and phase Completed exactly when the claimed count is at
  least the desired count (as signed 32-bit numbers). In that case the completion time is
  set and the Completed condition is true with reason \<^verbatim>\<open>AllReplicasClaimed\<close>. When the
  claimed count is below the desired count the status comes back with its phase unchanged
  (only the observed generation is refreshed) and \<^verbatim>\<open>skipBusinessLogic\<close> false.
\<close>

theorem replicas_met_completes:
  assumes "Phase (NewStatus args) = SandboxClaimPhaseClaiming"
      and "SandboxSet args \<noteq> None"
      and "\<not> fst (isClaimTimeout clk (Claim args) (NewStatus args))"
  shows "let desired = (case Replicas (Spec (Claim args)) of Some r \<Rightarrow> r | None \<Rightarrow> 1);
             claimed = ClaimedReplicas (NewStatus args);
             clk1 = snd (isClaimTimeout clk (Claim args) (NewStatus args))
         in \<exists>status skip.
              fst (CalculateClaimStatus durationString clk args) = Some (status, skip) \<and>
              (skip \<longleftrightarrow> desired \<le>s claimed) \<and>
              (Phase status = SandboxClaimPhaseCompleted \<longleftrightarrow> desired \<le>s claimed) \<and>
              (desired \<le>s claimed \<longrightarrow>
                 CompletionTime status = Some (fst (time_Now clk1)) \<and>
                 (\<exists>c. find (\<lambda>c. CondType c = SandboxClaimConditionCompleted) (Conditions status)
                        = Some c \<and>
                      CondStatus c = ConditionTrue \<and> CondReason c = ''AllReplicasClaimed'')) \<and>
              (claimed <s desired \<longrightarrow>
                 skip = False \<and> Phase status = Phase (NewStatus args) \<and>
                 status = (NewStatus args)\<lparr>ObservedGeneration := Generation (Claim args)\<rparr>) \<and>
              (claimed <s desired \<longleftrightarrow> \<not> desired \<le>s claimed)"
proof -
  define desired where "desired = (case Replicas (Spec (Claim args)) of Some r \<Rightarrow> r | None \<Rightarrow> 1)"
  define claimed where "claimed = ClaimedReplicas (NewStatus args)"
  define newStatus where "newStatus = (NewStatus args)\<lparr>ObservedGeneration := Generation (Claim args)\<rparr>"
  obtain clk1 where t: "isClaimTimeout clk (Claim args) (NewStatus args) = (False, clk1)"
    using assms(3) by (cases "isClaimTimeout clk (Claim args) (NewStatus args)") simp
  have met: "isReplicasMet (Claim args) newStatus \<longleftrightarrow> desired \<le>s claimed"
    by (simp add: isReplicasMet_def getDesiredReplicas_def DefaultReplicasCount_def
        desired_def claimed_def newStatus_def split: option.splits)
  have lin: "claimed <s desired \<longleftrightarrow> \<not> desired \<le>s claimed"
    by (simp add: word_sle_eq word_sless_alt not_le)
  have calc: "CalculateClaimStatus durationString clk args =
      (if desired \<le>s claimed
       then (Some (fst (transitionToCompletedWithSuccess clk1 newStatus (Claim args)), True),
             snd (transitionToCompletedWithSuccess clk1 newStatus (Claim args)))
       else (Some (newStatus, False), clk1))"
    using assms(1,2) t met
    by (auto simp: CalculateClaimStatus_def Let_def split_def newStatus_def)
  show ?thesis
  proof (cases "desired \<le>s claimed")
    case True
    define c0 where "c0 =
       \<lparr>CondType = SandboxClaimConditionCompleted, CondStatus = ConditionTrue,
        CondObservedGeneration = 0, CondLastTransitionTime = clk1 0,
        CondReason = ''AllReplicasClaimed'',
        CondMessage = ''Successfully claimed all '' @ fmt_d (sint (ClaimedReplicas newStatus))
                        @ '' sandboxes''\<rparr>"
    define st where "st = fst (transitionToCompletedWithSuccess clk1 newStatus (Claim args))"
    have st: "Phase st = SandboxClaimPhaseCompleted" "CompletionTime st = Some (clk1 0)"
      by (simp_all add: st_def transitionToCompletedWithSuccess_eq)
    have "find (\<lambda>c. CondType c = CondType c0) (Conditions st) = Some c0"
      unfolding st_def transitionToCompletedWithSuccess_eq fst_conv c0_def
      by (rule storeCondition_find)
    then have fnd: "find (\<lambda>c. CondType c = SandboxClaimConditionCompleted) (Conditions st) = Some c0"
      by (simp add: c0_def)
    have c0: "CondStatus c0 = ConditionTrue" "CondReason c0 = ''AllReplicasClaimed''"
      by (simp_all add: c0_def)
    have res: "fst (CalculateClaimStatus durationString clk args) = Some (st, True)"
      using calc True by (simp add: st_def)
    have "fst (CalculateClaimStatus durationString clk args) = Some (st, True) \<and>
          (True \<longleftrightarrow> desired \<le>s claimed) \<and>
          (Phase st = SandboxClaimPhaseCompleted \<longleftrightarrow> desired \<le>s claimed) \<and>
          (desired \<le>s claimed \<longrightarrow>
             CompletionTime st = Some (fst (time_Now clk1)) \<and>
             (\<exists>c. find (\<lambda>c. CondType c = SandboxClaimConditionCompleted) (Conditions st) = Some c \<and>
                  CondStatus c = ConditionTrue \<and> CondReason c = ''AllReplicasClaimed'')) \<and>
          (claimed <s desired \<longrightarrow>
             True = False \<and> Phase st = Phase (NewStatus args) \<and> st = newStatus) \<and>
          (claimed <s desired \<longleftrightarrow> \<not> desired \<le>s claimed)"
      using res True st fnd c0 lin by (simp add: time_Now_def)
    then show ?thesis
      unfolding Let_def desired_def [symmetric] claimed_def [symmetric] newStatus_def [symmetric]
        t snd_conv
      by blast
  next
    case False
    have res: "fst (CalculateClaimStatus durationString clk args) = Some (newStatus, False)"
      using calc False by simp
    have "fst (CalculateClaimStatus durationString clk args) = Some (newStatus, False) \<and>
          (False \<longleftrightarrow> desired \<le>s claimed) \<and>
          (Phase newStatus = SandboxClaimPhaseCompleted \<longleftrightarrow> desired \<le>s claimed) \<and>
          (desired \<le>s claimed \<longrightarrow>
             CompletionTime newStatus = Some (fst (time_Now clk1)) \<and>
             (\<exists>c. find (\<lambda>c. CondType c = SandboxClaimConditionCompleted) (Conditions newStatus) = Some c \<and>
                  CondStatus c = ConditionTrue \<and> CondReason c = ''AllReplicasClaimed'')) \<and>
          (claimed <s desired \<longrightarrow>
             False = False \<and> Phase newStatus = Phase (NewStatus args) \<and> newStatus = newStatus) \<and>
          (claimed <s desired \<longleftrightarrow> \<not> desired \<le>s claimed)"
      using res False lin assms(1) by (simp add: newStatus_def)
    then show ?thesis
      unfolding Let_def desired_def [symmetric] claimed_def [symmetric] newStatus_def [symmetric]
        t snd_conv
      by blast
  qed
qed

lemma sint_time_Sub:
  "sint (time_Sub t u) = max (- (2 ^ 63)) (min (2 ^ 63 - 1) (t - u))"
proof -
  let ?k = "max (- (2 ^ 63)) (min (2 ^ 63 - 1) (t - u)) :: int"
  have "- (2 ^ 63) \<le> ?k" "?k < 2 ^ 63" by simp_all
  then have "signed_take_bit 63 ?k = ?k"
    by (simp only: signed_take_bit_int_eq_self)
  then show ?thesis
    by (simp add: time_Sub_def sint_sbintrunc')
qed

lemma time_Sub_negative: "t < u \<Longrightarrow> sint (time_Sub t u) < 0"
  by (simp add: sint_time_Sub)

text \<open>
  C4, as amended. With a configured timeout that is not negative and a claim start time
  strictly after the clock reading, \<^verbatim>\<open>isClaimTimeout\<close> answers false, and a call of
  \<^verbatim>\<open>CalculateClaimStatus\<close> that reaches the timeout check (phase set and not Completed,
  pool descriptor present) goes on to the replica check: it completes with success or
  returns the status as it is.
\<close>

theorem future_start_no_timeout:
  assumes "ClaimTimeout (Spec claim) = Some timeout"
      and "0 \<le>s timeout"
      and "ClaimStartTime status = Some start"
      and "fst (time_Now clk) < start"
  shows "\<not> fst (isClaimTimeout clk claim status) \<and>
         (\<forall>durationString sbs.
            Phase status \<noteq> '''' \<and> Phase status \<noteq> SandboxClaimPhaseCompleted \<and> sbs \<noteq> None \<longrightarrow>
            CalculateClaimStatus durationString clk
                \<lparr>Claim = claim, SandboxSet = sbs, NewStatus = status\<rparr>
              = (if isReplicasMet claim status
                 then (Some (fst (transitionToCompletedWithSuccess (snd (time_Now clk))
                                    (status\<lparr>ObservedGeneration := Generation claim\<rparr>) claim), True),
                       snd (transitionToCompletedWithSuccess (snd (time_Now clk))
                              (status\<lparr>ObservedGeneration := Generation claim\<rparr>) claim))
                 else (Some (status\<lparr>ObservedGeneration := Generation claim\<rparr>, False),
                       snd (time_Now clk))))"
proof -
  have neg: "sint (time_Sub (clk 0) start) < 0"
    using assms(4) by (simp add: time_Sub_negative time_Now_def)
  have t: "isClaimTimeout clk claim status = (False, snd (time_Now clk))"
    using assms(1,2,3) neg
    by (simp add: isClaimTimeout_def time_Since_def time_Now_def word_sle_eq)
  show ?thesis
    using t by (auto simp: CalculateClaimStatus_def Let_def split_def)
qed

lemma transitionToCompletedWithTimeout_eq:
  "transitionToCompletedWithTimeout ds clk s elapsed claim =
     (storeCondition
        (storeCondition
           (s\<lparr>Phase := SandboxClaimPhaseCompleted,
              Message := ''Timeout reached after '' @ ds elapsed @ '', claimed ''
                         @ (fmt_d (sint (ClaimedReplicas s)) @ ''/''
                            @ fmt_d (sint (getDesiredReplicas claim))) @ '' sandboxes'',
              CompletionTime := Some (clk 0)\<rparr>)
           \<lparr>CondType = SandboxClaimConditionTimedOut, CondStatus = ConditionTrue,
            CondObservedGeneration = 0, CondLastTransitionTime = clk 0,
            CondReason = ''ClaimTimeoutReached'',
            CondMessage = ''Timeout after '' @ ds elapsed @ '', claimed ''
                            @ (fmt_d (sint (ClaimedReplicas s)) @ ''/''
                               @ fmt_d (sint (getDesiredReplicas claim)))\<rparr>)
        \<lparr>CondType = SandboxClaimConditionCompleted, CondStatus = ConditionTrue,
         CondObservedGeneration = 0, CondLastTransitionTime = clk 0,
         CondReason = ''TimeoutReached'',
         CondMessage = ''Timeout reached after '' @ ds elapsed @ '', claimed ''
                         @ (fmt_d (sint (ClaimedReplicas s)) @ ''/''
                            @ fmt_d (sint (getDesiredReplicas claim))) @ '' sandboxes''\<rparr>,
      \<lambda>n. clk (Suc n))"
  by (simp add: transitionToCompletedWithTimeout_def time_Now_def Let_def)

lemma timeless_storeCondition:
  "timeless (storeCondition s c) =
     (ObservedGeneration s, Phase s, ClaimedReplicas s,
      if CondType c \<in> set (map CondType (Conditions s)) then map CondType (Conditions s)
      else map CondType (Conditions s) @ [CondType c])"
  by (simp only: timeless_def storeCondition_fields storeCondition_types)

lemma timeless_transitionToCompleted:
  "timeless (fst (transitionToCompleted clk s r m)) =
   timeless (fst (transitionToCompleted clk' s r m))"
  by (simp add: transitionToCompleted_eq timeless_storeCondition)

lemma timeless_transitionToCompletedWithSuccess:
  "timeless (fst (transitionToCompletedWithSuccess clk s claim)) =
   timeless (fst (transitionToCompletedWithSuccess clk' s claim))"
  by (simp add: transitionToCompletedWithSuccess_eq timeless_storeCondition)

lemma timeless_transitionToCompletedWithTimeout:
  "timeless (fst (transitionToCompletedWithTimeout ds clk s e claim)) =
   timeless (fst (transitionToCompletedWithTimeout ds clk' s e' claim))"
  by (simp add: transitionToCompletedWithTimeout_eq timeless_storeCondition
      storeCondition_types)

lemma isClaimTimeout_cases:
  "isClaimTimeout clk claim s = (False, clk) \<or>
   (\<exists>b. isClaimTimeout clk claim s = (b, snd (time_Now clk)) \<and> ClaimStartTime s \<noteq> None)"
  by (auto simp: isClaimTimeout_def time_Since_def time_Now_def split: option.splits)

text \<open>The branch structure of the calculation, with the clock readings abstracted.\<close>

lemma CalculateClaimStatus_branches:
  fixes args ds clk
  defines "newStatus \<equiv> (NewStatus args)\<lparr>ObservedGeneration := Generation (Claim args)\<rparr>"
  shows "\<exists>st skip. fst (CalculateClaimStatus ds clk args) = Some (st, skip) \<and>
     (if Phase (NewStatus args) = '''' then
        \<not> skip \<and> st = newStatus\<lparr>Phase := SandboxClaimPhaseClaiming,
                                   ClaimStartTime := Some (fst (time_Now clk))\<rparr>
      else if Phase (NewStatus args) = SandboxClaimPhaseCompleted then \<not> skip \<and> st = newStatus
      else if SandboxSet args = None then
        skip \<and> st = fst (transitionToCompleted clk newStatus ''SandboxSetNotFound''
                            ''SandboxSet not found or deleted'')
      else if fst (isClaimTimeout clk (Claim args) (NewStatus args)) then
        skip \<and> (\<exists>c e. st = fst (transitionToCompletedWithTimeout ds c newStatus e (Claim args)))
      else if isReplicasMet (Claim args) (NewStatus args) then
        skip \<and> (\<exists>c. st = fst (transitionToCompletedWithSuccess c newStatus (Claim args)))
      else \<not> skip \<and> st = newStatus)"
proof -
  consider (unset) "Phase (NewStatus args) = ''''"
    | (completed) "Phase (NewStatus args) \<noteq> ''''"
        "Phase (NewStatus args) = SandboxClaimPhaseCompleted"
    | (absent) "Phase (NewStatus args) \<noteq> ''''"
        "Phase (NewStatus args) \<noteq> SandboxClaimPhaseCompleted" "SandboxSet args = None"
    | (present) "Phase (NewStatus args) \<noteq> ''''"
        "Phase (NewStatus args) \<noteq> SandboxClaimPhaseCompleted" "SandboxSet args \<noteq> None"
    by blast
  then show ?thesis
  proof cases
    case unset
    then show ?thesis
      by (auto simp: CalculateClaimStatus_def Let_def split_def newStatus_def)
  next
    case completed
    then show ?thesis
      by (auto simp: CalculateClaimStatus_def Let_def split_def newStatus_def)
  next
    case absent
    then show ?thesis
      by (auto simp: CalculateClaimStatus_def Let_def split_def newStatus_def)
  next
    case present
    then obtain sbs where sbs: "SandboxSet args = Some sbs" by blast
    note pres = present(1,2) sbs
    obtain b clk1 where t: "isClaimTimeout clk (Claim args) (NewStatus args) = (b, clk1)"
      by (cases "isClaimTimeout clk (Claim args) (NewStatus args)")
    show ?thesis
    proof (cases b)
      case True
      with t have "ClaimStartTime (NewStatus args) \<noteq> None"
        using isClaimTimeout_start [of clk "Claim args" "NewStatus args"] by simp
      then obtain start where start: "ClaimStartTime (NewStatus args) = Some start" by blast
      have "fst (CalculateClaimStatus ds clk args) =
              Some (fst (transitionToCompletedWithTimeout ds (snd (time_Since clk1 start))
                      newStatus (fst (time_Since clk1 start)) (Claim args)), True)"
        using pres t True start
        by (simp add: CalculateClaimStatus_def Let_def split_def newStatus_def)
      with pres t True show ?thesis by auto
    next
      case False
      show ?thesis
      proof (cases "isReplicasMet (Claim args) (NewStatus args)")
        case met: True
        have "fst (CalculateClaimStatus ds clk args) =
                Some (fst (transitionToCompletedWithSuccess clk1 newStatus (Claim args)), True)"
          using pres t False met
          by (simp add: CalculateClaimStatus_def Let_def split_def newStatus_def)
        with pres t False met show ?thesis by auto
      next
        case unmet: False
        have "fst (CalculateClaimStatus ds clk args) = Some (newStatus, False)"
          using pres t False unmet
          by (simp add: CalculateClaimStatus_def Let_def split_def newStatus_def)
        with pres t False unmet show ?thesis by auto
      qed
    qed
  qed
qed

lemma timeless_eqD:
  "timeless s1 = timeless s2 \<Longrightarrow>
     ObservedGeneration s1 = ObservedGeneration s2 \<and> Phase s1 = Phase s2 \<and>
     ClaimedReplicas s1 = ClaimedReplicas s2 \<and>
     map CondType (Conditions s1) = map CondType (Conditions s2)"
  by (simp add: timeless_def)

text \<open>
  C2, as amended. For one input triple and two calls, each with its own clock readings:
  when the timeout check gives the same verdict in both calls, both return the same
  \<^verbatim>\<open>skipBusinessLogic\<close>, the same phase, observed generation and claimed count, and
  conditions of the same types in the same order. When the call makes no transition
  (\<^verbatim>\<open>skipBusinessLogic\<close> false, phase set before) the two statuses are equal as a whole.
  The time stamps and the messages of a transition follow the clock of each call.
\<close>

theorem same_verdict_same_outcome:
  assumes "fst (isClaimTimeout clk1 (Claim args) (NewStatus args))
             = fst (isClaimTimeout clk2 (Claim args) (NewStatus args))"
  shows "\<exists>s1 s2 skip.
           fst (CalculateClaimStatus durationString clk1 args) = Some (s1, skip) \<and>
           fst (CalculateClaimStatus durationString clk2 args) = Some (s2, skip) \<and>
           ObservedGeneration s1 = ObservedGeneration s2 \<and> Phase s1 = Phase s2 \<and>
           ClaimedReplicas s1 = ClaimedReplicas s2 \<and>
           map CondType (Conditions s1) = map CondType (Conditions s2) \<and>
           (\<not> skip \<and> Phase (NewStatus args) \<noteq> '''' \<longrightarrow> s1 = s2)"
proof -
  define newStatus where
    "newStatus = (NewStatus args)\<lparr>ObservedGeneration := Generation (Claim args)\<rparr>"
  obtain s1 k1 where r1: "fst (CalculateClaimStatus durationString clk1 args) = Some (s1, k1)"
    and b1: "if Phase (NewStatus args) = '''' then
        \<not> k1 \<and> s1 = newStatus\<lparr>Phase := SandboxClaimPhaseClaiming,
                                   ClaimStartTime := Some (fst (time_Now clk1))\<rparr>
      else if Phase (NewStatus args) = SandboxClaimPhaseCompleted then \<not> k1 \<and> s1 = newStatus
      else if SandboxSet args = None then
        k1 \<and> s1 = fst (transitionToCompleted clk1 newStatus ''SandboxSetNotFound''
                            ''SandboxSet not found or deleted'')
      else if fst (isClaimTimeout clk1 (Claim args) (NewStatus args)) then
        k1 \<and> (\<exists>c e. s1 = fst (transitionToCompletedWithTimeout durationString c newStatus e (Claim args)))
      else if isReplicasMet (Claim args) (NewStatus args) then
        k1 \<and> (\<exists>c. s1 = fst (transitionToCompletedWithSuccess c newStatus (Claim args)))
      else \<not> k1 \<and> s1 = newStatus"
    using CalculateClaimStatus_branches [of durationString clk1 args]
    unfolding newStatus_def by blast
  obtain s2 k2 where r2: "fst (CalculateClaimStatus durationString clk2 args) = Some (s2, k2)"
    and b2: "if Phase (NewStatus args) = '''' then
        \<not> k2 \<and> s2 = newStatus\<lparr>Phase := SandboxClaimPhaseClaiming,
                                   ClaimStartTime := Some (fst (time_Now clk2))\<rparr>
      else if Phase (NewStatus args) = SandboxClaimPhaseCompleted then \<not> k2 \<and> s2 = newStatus
      else if SandboxSet args = None then
        k2 \<and> s2 = fst (transitionToCompleted clk2 newStatus ''SandboxSetNotFound''
                            ''SandboxSet not found or deleted'')
      else if fst (isClaimTimeout clk2 (Claim args) (NewStatus args)) then
        k2 \<and> (\<exists>c e. s2 = fst (transitionToCompletedWithTimeout durationString c newStatus e (Claim args)))
      else if isReplicasMet (Claim args) (NewStatus args) then
        k2 \<and> (\<exists>c. s2 = fst (transitionToCompletedWithSuccess c newStatus (Claim args)))
      else \<not> k2 \<and> s2 = newStatus"
    using CalculateClaimStatus_branches [of durationString clk2 args]
    unfolding newStatus_def by blast
  have "k1 = k2 \<and> timeless s1 = timeless s2 \<and>
        (\<not> k1 \<and> Phase (NewStatus args) \<noteq> '''' \<longrightarrow> s1 = s2)"
  proof (cases "Phase (NewStatus args) = ''''")
    case True
    with b1 b2 show ?thesis by (simp add: timeless_def)
  next
    case unset: False
    show ?thesis
    proof (cases "Phase (NewStatus args) = SandboxClaimPhaseCompleted")
      case True
      with unset b1 b2 show ?thesis by simp
    next
      case running: False
      show ?thesis
      proof (cases "SandboxSet args = None")
        case True
        with unset running b1 b2 show ?thesis
          by (simp add: timeless_transitionToCompleted [of clk1 _ _ _ clk2])
      next
        case present: False
        show ?thesis
        proof (cases "fst (isClaimTimeout clk1 (Claim args) (NewStatus args))")
          case True
          with assms have "fst (isClaimTimeout clk2 (Claim args) (NewStatus args))" by simp
          with True unset running present b1 b2 show ?thesis
            using timeless_transitionToCompletedWithTimeout by auto
        next
          case False
          with assms have "\<not> fst (isClaimTimeout clk2 (Claim args) (NewStatus args))" by simp
          with False unset running present b1 b2 show ?thesis
            using timeless_transitionToCompletedWithSuccess
            by (cases "isReplicasMet (Claim args) (NewStatus args)") auto
        qed
      qed
    qed
  qed
  with r1 r2 timeless_eqD [of s1 s2] show ?thesis by auto
qed

lemma phase_transitions [simp]:
  "Phase (fst (transitionToCompleted clk s r m)) = SandboxClaimPhaseCompleted"
  "Phase (fst (transitionToCompletedWithSuccess clk s claim)) = SandboxClaimPhaseCompleted"
  "Phase (fst (transitionToCompletedWithTimeout ds clk s e claim)) = SandboxClaimPhaseCompleted"
  by (simp_all add: transitionToCompleted_eq transitionToCompletedWithSuccess_eq
      transitionToCompletedWithTimeout_eq)

lemma CalculateClaimStatus_phase:
  "\<exists>st skip. fst (CalculateClaimStatus ds clk args) = Some (st, skip) \<and>
     (Phase (NewStatus args) = '''' \<longrightarrow> Phase st = SandboxClaimPhaseClaiming) \<and>
     (Phase (NewStatus args) = SandboxClaimPhaseCompleted \<longrightarrow>
        Phase st = SandboxClaimPhaseCompleted \<and> \<not> skip) \<and>
     (Phase (NewStatus args) \<noteq> '''' \<longrightarrow>
        Phase st = Phase (NewStatus args) \<or> Phase st = SandboxClaimPhaseCompleted)"
proof -
  define newStatus where
    "newStatus = (NewStatus args)\<lparr>ObservedGeneration := Generation (Claim args)\<rparr>"
  obtain st skip where r: "fst (CalculateClaimStatus ds clk args) = Some (st, skip)"
    and b: "if Phase (NewStatus args) = '''' then
        \<not> skip \<and> st = newStatus\<lparr>Phase := SandboxClaimPhaseClaiming,
                                   ClaimStartTime := Some (fst (time_Now clk))\<rparr>
      else if Phase (NewStatus args) = SandboxClaimPhaseCompleted then \<not> skip \<and> st = newStatus
      else if SandboxSet args = None then
        skip \<and> st = fst (transitionToCompleted clk newStatus ''SandboxSetNotFound''
                            ''SandboxSet not found or deleted'')
      else if fst (isClaimTimeout clk (Claim args) (NewStatus args)) then
        skip \<and> (\<exists>c e. st = fst (transitionToCompletedWithTimeout ds c newStatus e (Claim args)))
      else if isReplicasMet (Claim args) (NewStatus args) then
        skip \<and> (\<exists>c. st = fst (transitionToCompletedWithSuccess c newStatus (Claim args)))
      else \<not> skip \<and> st = newStatus"
    using CalculateClaimStatus_branches [of ds clk args]
    unfolding newStatus_def by blast
  have p0: "Phase newStatus = Phase (NewStatus args)" by (simp add: newStatus_def)
  have "(Phase (NewStatus args) = '''' \<longrightarrow> Phase st = SandboxClaimPhaseClaiming) \<and>
     (Phase (NewStatus args) = SandboxClaimPhaseCompleted \<longrightarrow>
        Phase st = SandboxClaimPhaseCompleted \<and> \<not> skip) \<and>
     (Phase (NewStatus args) \<noteq> '''' \<longrightarrow>
        Phase st = Phase (NewStatus args) \<or> Phase st = SandboxClaimPhaseCompleted)"
  proof (cases "Phase (NewStatus args) = ''''")
    case True
    with b show ?thesis by simp
  next
    case unset: False
    show ?thesis
    proof (cases "Phase (NewStatus args) = SandboxClaimPhaseCompleted")
      case True
      with unset b p0 show ?thesis by simp
    next
      case running: False
      from unset running b
      have "Phase st = SandboxClaimPhaseCompleted \<or> st = newStatus"
        by (auto split: if_splits)
      with unset running p0 show ?thesis by auto
    qed
  qed
  with r show ?thesis by blast
qed

lemma successivePhases_walk:
  "Phase status \<in> {'''', SandboxClaimPhaseClaiming, SandboxClaimPhaseCompleted} \<Longrightarrow>
     sorted (map phaseRank (successivePhases ds steps status)) \<and>
     set (successivePhases ds steps status)
       \<subseteq> {'''', SandboxClaimPhaseClaiming, SandboxClaimPhaseCompleted} \<and>
     length (successivePhases ds steps status) = Suc (length steps) \<and>
     hd (successivePhases ds steps status) = Phase status"
proof (induction steps arbitrary: status)
  case Nil
  then show ?case by simp
next
  case (Cons step steps)
  obtain clk claim sbs where step: "step = (clk, claim, sbs)" by (cases step)
  let ?args = "\<lparr>Claim = claim, SandboxSet = sbs, NewStatus = status\<rparr>"
  from CalculateClaimStatus_phase [of ds clk ?args]
  obtain st skip where r: "fst (CalculateClaimStatus ds clk ?args) = Some (st, skip)"
    and p: "Phase status = '''' \<longrightarrow> Phase st = SandboxClaimPhaseClaiming"
           "Phase status = SandboxClaimPhaseCompleted \<longrightarrow> Phase st = SandboxClaimPhaseCompleted"
           "Phase status \<noteq> '''' \<longrightarrow> Phase st = Phase status \<or> Phase st = SandboxClaimPhaseCompleted"
    by auto
  from p Cons.prems
  have known: "Phase st \<in> {'''', SandboxClaimPhaseClaiming, SandboxClaimPhaseCompleted}"
    and le: "phaseRank (Phase status) \<le> phaseRank (Phase st)"
    by (auto simp: phaseRank_def)
  note IH = Cons.IH [OF known]
  have eq: "successivePhases ds (step # steps) status = Phase status # successivePhases ds steps st"
    by (simp add: step r)
  have ne: "successivePhases ds steps st \<noteq> []" using IH by auto
  have "\<forall>x \<in> set (map phaseRank (successivePhases ds steps st)). phaseRank (Phase st) \<le> x"
    using IH ne by (cases "successivePhases ds steps st") auto
  with le have "\<forall>x \<in> set (map phaseRank (successivePhases ds steps st)). phaseRank (Phase status) \<le> x"
    by auto
  with IH Cons.prems show ?case unfolding eq by simp
qed

lemmas calc_defs = CalculateClaimStatus_def transitionToCompleted_def
  transitionToCompletedWithSuccess_def transitionToCompletedWithTimeout_def storeCondition_def
  setCondition_def isClaimTimeout_def isReplicasMet_def getDesiredReplicas_def
  DefaultReplicasCount_def time_Since_def time_Sub_def time_Now_def Let_def split_def
  exampleArgs_def example_defs word_sle_eq fmt_d_def decimal.simps

theorem replicas_met_completes_witness:
  "Phase (NewStatus (exampleArgs (Some 5) None (Some SandboxSetObj) SandboxClaimPhaseClaiming (Some 0) 5))
     = SandboxClaimPhaseClaiming \<and>
   SandboxSet (exampleArgs (Some 5) None (Some SandboxSetObj) SandboxClaimPhaseClaiming (Some 0) 5) \<noteq> None \<and>
   \<not> fst (isClaimTimeout (tickingClock 100 10)
            (Claim (exampleArgs (Some 5) None (Some SandboxSetObj) SandboxClaimPhaseClaiming (Some 0) 5))
            (NewStatus (exampleArgs (Some 5) None (Some SandboxSetObj) SandboxClaimPhaseClaiming (Some 0) 5))) \<and>
   (\<exists>status c.
      fst (CalculateClaimStatus nanosecondsString (tickingClock 100 10)
             (exampleArgs (Some 5) None (Some SandboxSetObj) SandboxClaimPhaseClaiming (Some 0) 5))
        = Some (status, True) \<and>
      Phase status = SandboxClaimPhaseCompleted \<and> CompletionTime status = Some 100 \<and>
      find (\<lambda>c. CondType c = SandboxClaimConditionCompleted) (Conditions status) = Some c \<and>
      CondStatus c = ConditionTrue \<and> CondReason c = ''AllReplicasClaimed'') \<and>
   Phase (NewStatus (exampleArgs None None (Some SandboxSetObj) SandboxClaimPhaseClaiming (Some 0) 0))
     = SandboxClaimPhaseClaiming \<and>
   SandboxSet (exampleArgs None None (Some SandboxSetObj) SandboxClaimPhaseClaiming (Some 0) 0) \<noteq> None \<and>
   \<not> fst (isClaimTimeout (tickingClock 100 10)
            (Claim (exampleArgs None None (Some SandboxSetObj) SandboxClaimPhaseClaiming (Some 0) 0))
            (NewStatus (exampleArgs None None (Some SandboxSetObj) SandboxClaimPhaseClaiming (Some 0) 0))) \<and>
   fst (CalculateClaimStatus nanosecondsString (tickingClock 100 10)
          (exampleArgs None None (Some SandboxSetObj) SandboxClaimPhaseClaiming (Some 0) 0))
     = Some ((exampleStatus SandboxClaimPhaseClaiming (Some 0) 0)\<lparr>ObservedGeneration := 1\<rparr>, False)"
proof -
  let ?met = "exampleArgs (Some 5) None (Some SandboxSetObj) SandboxClaimPhaseClaiming (Some 0) 5"
  let ?unmet = "exampleArgs None None (Some SandboxSetObj) SandboxClaimPhaseClaiming (Some 0) 0"
  let ?clk = "tickingClock 100 10"
  have m1: "Phase (NewStatus ?met) = SandboxClaimPhaseClaiming"
    and m2: "SandboxSet ?met \<noteq> None"
    and m3: "\<not> fst (isClaimTimeout ?clk (Claim ?met) (NewStatus ?met))"
    by (simp_all add: exampleArgs_def exampleStatus_def exampleClaim_def isClaimTimeout_def)
  have u1: "Phase (NewStatus ?unmet) = SandboxClaimPhaseClaiming"
    and u2: "SandboxSet ?unmet \<noteq> None"
    and u3: "\<not> fst (isClaimTimeout ?clk (Claim ?unmet) (NewStatus ?unmet))"
    by (simp_all add: exampleArgs_def exampleStatus_def exampleClaim_def isClaimTimeout_def)
  have vals: "Replicas (Spec (Claim ?met)) = Some 5" "ClaimedReplicas (NewStatus ?met) = 5"
    "Replicas (Spec (Claim ?unmet)) = None" "ClaimedReplicas (NewStatus ?unmet) = 0"
    "snd (isClaimTimeout ?clk (Claim ?met) (NewStatus ?met)) = ?clk"
    "Generation (Claim ?unmet) = 1"
    "NewStatus ?unmet = exampleStatus SandboxClaimPhaseClaiming (Some 0) 0"
    "fst (time_Now ?clk) = 100"
    "ClaimedReplicas (exampleStatus SandboxClaimPhaseClaiming (Some 0) 0) = 0"
    by (simp_all add: exampleArgs_def exampleStatus_def exampleClaim_def isClaimTimeout_def
        time_Now_def tickingClock_def)
  have cmp: "(5 :: int32) \<le>s 5" "(0 :: int32) <s 1"
    by (simp_all add: word_sle_eq word_sless_alt)
  from replicas_met_completes [OF m1 m2 m3, of nanosecondsString]
  have met: "\<exists>status c.
      fst (CalculateClaimStatus nanosecondsString ?clk ?met) = Some (status, True) \<and>
      Phase status = SandboxClaimPhaseCompleted \<and> CompletionTime status = Some 100 \<and>
      find (\<lambda>c. CondType c = SandboxClaimConditionCompleted) (Conditions status) = Some c \<and>
      CondStatus c = ConditionTrue \<and> CondReason c = ''AllReplicasClaimed''"
    unfolding Let_def vals using cmp by auto
  from replicas_met_completes [OF u1 u2 u3, of nanosecondsString]
  have unmet: "fst (CalculateClaimStatus nanosecondsString ?clk ?unmet)
     = Some ((exampleStatus SandboxClaimPhaseClaiming (Some 0) 0)\<lparr>ObservedGeneration := 1\<rparr>, False)"
    unfolding Let_def vals using cmp by auto
  from m1 m2 m3 met u1 u2 u3 unmet show ?thesis by blast
qed

theorem future_start_no_timeout_witness:
  "ClaimTimeout (Spec (exampleClaim None (Some 5))) = Some 5 \<and>
   (0 :: Duration) \<le>s 5 \<and>
   ClaimStartTime (exampleStatus SandboxClaimPhaseClaiming (Some 100) 0) = Some 100 \<and>
   fst (time_Now (tickingClock 95 10)) < 100 \<and>
   \<not> fst (isClaimTimeout (tickingClock 95 10) (exampleClaim None (Some 5))
            (exampleStatus SandboxClaimPhaseClaiming (Some 100) 0)) \<and>
   fst (CalculateClaimStatus nanosecondsString (tickingClock 95 10)
          (exampleArgs None (Some 5) (Some SandboxSetObj) SandboxClaimPhaseClaiming (Some 100) 0))
     = Some ((exampleStatus SandboxClaimPhaseClaiming (Some 100) 0)\<lparr>ObservedGeneration := 1\<rparr>, False)"
proof -
  let ?claim = "exampleClaim None (Some 5)"
  let ?status = "exampleStatus SandboxClaimPhaseClaiming (Some 100) 0"
  let ?clk = "tickingClock 95 10"
  have h1: "ClaimTimeout (Spec ?claim) = Some 5" by (simp add: exampleClaim_def)
  have h2: "(0 :: Duration) \<le>s 5" by (simp add: word_sle_eq)
  have h3: "ClaimStartTime ?status = Some 100" by (simp add: exampleStatus_def)
  have h4: "fst (time_Now ?clk) < 100" by (simp add: time_Now_def tickingClock_def)
  note inst = future_start_no_timeout [OF h1 h2 h3 h4]
  from inst have a: "\<not> fst (isClaimTimeout ?clk ?claim ?status)" by blast
  have pre: "Phase ?status \<noteq> '''' \<and> Phase ?status \<noteq> SandboxClaimPhaseCompleted \<and>
             Some SandboxSetObj \<noteq> None"
    by (simp add: exampleStatus_def)
  have unmet: "\<not> isReplicasMet ?claim ?status"
    by (simp add: isReplicasMet_def getDesiredReplicas_def DefaultReplicasCount_def
        exampleClaim_def exampleStatus_def word_sle_eq)
  have gen: "Generation ?claim = 1" by (simp add: exampleClaim_def)
  from inst pre have "CalculateClaimStatus nanosecondsString ?clk
                \<lparr>Claim = ?claim, SandboxSet = Some SandboxSetObj, NewStatus = ?status\<rparr>
              = (if isReplicasMet ?claim ?status
                 then (Some (fst (transitionToCompletedWithSuccess (snd (time_Now ?clk))
                                    (?status\<lparr>ObservedGeneration := Generation ?claim\<rparr>) ?claim), True),
                       snd (transitionToCompletedWithSuccess (snd (time_Now ?clk))
                              (?status\<lparr>ObservedGeneration := Generation ?claim\<rparr>) ?claim))
                 else (Some (?status\<lparr>ObservedGeneration := Generation ?claim\<rparr>, False),
                       snd (time_Now ?clk)))"
    by blast
  with unmet gen have b: "fst (CalculateClaimStatus nanosecondsString ?clk
          (exampleArgs None (Some 5) (Some SandboxSetObj) SandboxClaimPhaseClaiming (Some 100) 0))
     = Some (?status\<lparr>ObservedGeneration := 1\<rparr>, False)"
    by (simp add: exampleArgs_def)
  from h1 h2 h3 h4 a b show ?thesis by blast
qed

lemma two_calls_first:
  "CalculateClaimStatus nanosecondsString (tickingClock 0 10)
     (exampleArgs None (Some 5) (Some SandboxSetObj) SandboxClaimPhaseClaiming (Some 0) 0)
   = (Some ((exampleStatus SandboxClaimPhaseClaiming (Some 0) 0)\<lparr>ObservedGeneration := 1\<rparr>, False),
      tickingClock 10 10)"
  by (simp add: calc_defs fun_eq_iff)

lemma two_calls_second:
  "CalculateClaimStatus nanosecondsString (tickingClock 10 10)
     (exampleArgs None (Some 5) (Some SandboxSetObj) SandboxClaimPhaseClaiming (Some 0) 0)
   = (Some (\<lparr>ObservedGeneration = 1, Phase = ''Completed'',
             Message = ''Timeout reached after 20ns, claimed 0/1 sandboxes'',
             ClaimStartTime = Some 0, ClaimedReplicas = 0, CompletionTime = Some 30,
             Conditions =
               [\<lparr>CondType = ''TimedOut'', CondStatus = ConditionTrue,
                 CondObservedGeneration = 0, CondLastTransitionTime = 30,
                 CondReason = ''ClaimTimeoutReached'',
                 CondMessage = ''Timeout after 20ns, claimed 0/1''\<rparr>,
                \<lparr>CondType = ''Completed'', CondStatus = ConditionTrue,
                 CondObservedGeneration = 0, CondLastTransitionTime = 30,
                 CondReason = ''TimeoutReached'',
                 CondMessage = ''Timeout reached after 20ns, claimed 0/1 sandboxes''\<rparr>]\<rparr>, True),
      tickingClock 40 10)"
  by (simp add: calc_defs fun_eq_iff)

text \<open>
  C2 as stated leaves the clock out. One call after the other on the same triple, the second
  reading the clock where the first left it: the first returns phase Claiming and
  \<^verbatim>\<open>skipBusinessLogic\<close> false, the second, past the timeout, phase Completed and true.
\<close>

theorem two_calls_counterexample:
  "fst (CalculateClaimStatus nanosecondsString (tickingClock 0 10)
          (exampleArgs None (Some 5) (Some SandboxSetObj) SandboxClaimPhaseClaiming (Some 0) 0))
     = Some ((exampleStatus SandboxClaimPhaseClaiming (Some 0) 0)\<lparr>ObservedGeneration := 1\<rparr>, False) \<and>
   (\<exists>status.
      fst (CalculateClaimStatus nanosecondsString
             (snd (CalculateClaimStatus nanosecondsString (tickingClock 0 10)
                     (exampleArgs None (Some 5) (Some SandboxSetObj) SandboxClaimPhaseClaiming (Some 0) 0)))
             (exampleArgs None (Some 5) (Some SandboxSetObj) SandboxClaimPhaseClaiming (Some 0) 0))
        = Some (status, True) \<and>
      Phase status = SandboxClaimPhaseCompleted \<and>
      Phase status \<noteq> Phase ((exampleStatus SandboxClaimPhaseClaiming (Some 0) 0)\<lparr>ObservedGeneration := 1\<rparr>))"
  unfolding two_calls_first snd_conv two_calls_second fst_conv
  by (simp add: exampleStatus_def SandboxClaimPhaseCompleted_def SandboxClaimPhaseClaiming_def)

lemma negative_timeout_example:
  "CalculateClaimStatus nanosecondsString (tickingClock 95 1)
     (exampleArgs None (Some (- 10)) (Some SandboxSetObj) SandboxClaimPhaseClaiming (Some 100) 0)
   = (Some (\<lparr>ObservedGeneration = 1, Phase = ''Completed'',
             Message = ''Timeout reached after -4ns, claimed 0/1 sandboxes'',
             ClaimStartTime = Some 100, ClaimedReplicas = 0, CompletionTime = Some 97,
             Conditions =
               [\<lparr>CondType = ''TimedOut'', CondStatus = ConditionTrue,
                 CondObservedGeneration = 0, CondLastTransitionTime = 97,
                 CondReason = ''ClaimTimeoutReached'',
                 CondMessage = ''Timeout after -4ns, claimed 0/1''\<rparr>,
                \<lparr>CondType = ''Completed'', CondStatus = ConditionTrue,
                 CondObservedGeneration = 0, CondLastTransitionTime = 97,
                 CondReason = ''TimeoutReached'',
                 CondMessage = ''Timeout reached after -4ns, claimed 0/1 sandboxes''\<rparr>]\<rparr>, True),
      tickingClock 98 1)"
  by (simp add: calc_defs fun_eq_iff)

text \<open>
  C4 as stated asks for this whatever the timeout is. A negative timeout fires although
  the start time lies in the future: the elapsed time is \<open>-5\<close> nanoseconds, the
  timeout \<open>-10\<close>, and the call completes the claim as timed out.
\<close>

theorem negative_timeout_counterexample:
  "fst (time_Now (tickingClock 95 1)) < 100 \<and>
   ClaimStartTime (exampleStatus SandboxClaimPhaseClaiming (Some 100) 0) = Some 100 \<and>
   ClaimTimeout (Spec (exampleClaim None (Some (- 10)))) = Some (- 10) \<and>
   fst (isClaimTimeout (tickingClock 95 1) (exampleClaim None (Some (- 10)))
          (exampleStatus SandboxClaimPhaseClaiming (Some 100) 0)) \<and>
   (\<exists>status.
      fst (CalculateClaimStatus nanosecondsString (tickingClock 95 1)
             (exampleArgs None (Some (- 10)) (Some SandboxSetObj) SandboxClaimPhaseClaiming
                (Some 100) 0))
        = Some (status, True) \<and>
      map CondReason (Conditions status) = [''ClaimTimeoutReached'', ''TimeoutReached''])"
  unfolding negative_timeout_example fst_conv
  by (simp add: isClaimTimeout_def time_Since_def time_Now_def time_Sub_def word_sle_eq
      example_defs)

theorem same_verdict_same_outcome_witness:
  "fst (isClaimTimeout (tickingClock 10 10)
          (Claim (exampleArgs None (Some 5) (Some SandboxSetObj) SandboxClaimPhaseClaiming (Some 0) 0))
          (NewStatus (exampleArgs None (Some 5) (Some SandboxSetObj) SandboxClaimPhaseClaiming (Some 0) 0)))
     = fst (isClaimTimeout (tickingClock 50 10)
          (Claim (exampleArgs None (Some 5) (Some SandboxSetObj) SandboxClaimPhaseClaiming (Some 0) 0))
          (NewStatus (exampleArgs None (Some 5) (Some SandboxSetObj) SandboxClaimPhaseClaiming (Some 0) 0))) \<and>
   (\<exists>s1 s2.
      fst (CalculateClaimStatus nanosecondsString (tickingClock 10 10)
             (exampleArgs None (Some 5) (Some SandboxSetObj) SandboxClaimPhaseClaiming (Some 0) 0))
        = Some (s1, True) \<and>
      fst (CalculateClaimStatus nanosecondsString (tickingClock 50 10)
             (exampleArgs None (Some 5) (Some SandboxSetObj) SandboxClaimPhaseClaiming (Some 0) 0))
        = Some (s2, True) \<and>
      ObservedGeneration s1 = ObservedGeneration s2 \<and> Phase s1 = Phase s2 \<and>
      ClaimedReplicas s1 = ClaimedReplicas s2 \<and>
      map CondType (Conditions s1) = map CondType (Conditions s2) \<and>
      CompletionTime s1 = Some 30 \<and> CompletionTime s2 = Some 70)"
proof -
  let ?args = "exampleArgs None (Some 5) (Some SandboxSetObj) SandboxClaimPhaseClaiming (Some 0) 0"
  have h: "fst (isClaimTimeout (tickingClock 10 10) (Claim ?args) (NewStatus ?args))
             = fst (isClaimTimeout (tickingClock 50 10) (Claim ?args) (NewStatus ?args))"
    by (simp add: calc_defs)
  from same_verdict_same_outcome [OF h, of nanosecondsString]
  obtain s1 s2 skip where
    r1: "fst (CalculateClaimStatus nanosecondsString (tickingClock 10 10) ?args) = Some (s1, skip)"
    and r2: "fst (CalculateClaimStatus nanosecondsString (tickingClock 50 10) ?args) = Some (s2, skip)"
    and eq: "ObservedGeneration s1 = ObservedGeneration s2" "Phase s1 = Phase s2"
      "ClaimedReplicas s1 = ClaimedReplicas s2"
      "map CondType (Conditions s1) = map CondType (Conditions s2)"
    by blast
  have e1: "snd (the (fst (CalculateClaimStatus nanosecondsString (tickingClock 10 10) ?args)))"
    "CompletionTime (fst (the (fst (CalculateClaimStatus nanosecondsString (tickingClock 10 10) ?args))))
       = Some 30"
    by (simp_all add: two_calls_second)
  have e2: "CompletionTime (fst (the (fst (CalculateClaimStatus nanosecondsString (tickingClock 50 10) ?args))))
       = Some 70"
    by (simp add: calc_defs)
  from e1 r1 have skip: "skip" and c1: "CompletionTime s1 = Some 30" by simp_all
  from e2 r2 have c2: "CompletionTime s2 = Some 70" by simp
  from skip r1 r2
  have r1': "fst (CalculateClaimStatus nanosecondsString (tickingClock 10 10) ?args) = Some (s1, True)"
    and r2': "fst (CalculateClaimStatus nanosecondsString (tickingClock 50 10) ?args) = Some (s2, True)"
    by simp_all
  have "\<exists>s1 s2.
      fst (CalculateClaimStatus nanosecondsString (tickingClock 10 10) ?args) = Some (s1, True) \<and>
      fst (CalculateClaimStatus nanosecondsString (tickingClock 50 10) ?args) = Some (s2, True) \<and>
      ObservedGeneration s1 = ObservedGeneration s2 \<and> Phase s1 = Phase s2 \<and>
      ClaimedReplicas s1 = ClaimedReplicas s2 \<and>
      map CondType (Conditions s1) = map CondType (Conditions s2) \<and>
      CompletionTime s1 = Some 30 \<and> CompletionTime s2 = Some 70"
    using r1' r2' eq c1 c2 by (intro exI [of _ s1] exI [of _ s2]) simp
  with h show ?thesis by (rule conjI)
qed

text \<open>
  C3. Starting from a status whose phase is unset, Claiming or Completed, the phases seen
  over any number of successive applications of \<^verbatim>\<open>CalculateClaimStatus\<close> (whatever the
  clock, the claim and the pool descriptor of each step) stay among these three and never
  go down in the order unset, Claiming, Completed; every application returns a status.
  A status in phase Completed comes back in phase Completed, with
  \<^verbatim>\<open>skipBusinessLogic\<close> false.
\<close>

theorem phase_never_regresses:
  assumes "Phase status \<in> {'''', SandboxClaimPhaseClaiming, SandboxClaimPhaseCompleted}"
  shows "sorted (map phaseRank (successivePhases durationString steps status)) \<and>
         set (successivePhases durationString steps status)
           \<subseteq> {'''', SandboxClaimPhaseClaiming, SandboxClaimPhaseCompleted} \<and>
         length (successivePhases durationString steps status) = Suc (length steps) \<and>
         (\<forall>clk args. Phase (NewStatus args) = SandboxClaimPhaseCompleted \<longrightarrow>
            (\<exists>st. fst (CalculateClaimStatus durationString clk args) = Some (st, False) \<and>
                  Phase st = SandboxClaimPhaseCompleted))"
proof -
  have "\<exists>st. fst (CalculateClaimStatus durationString clk args) = Some (st, False) \<and>
             Phase st = SandboxClaimPhaseCompleted"
    if "Phase (NewStatus args) = SandboxClaimPhaseCompleted" for clk args
    using CalculateClaimStatus_phase [of durationString clk args] that by auto
  with successivePhases_walk [OF assms, of durationString steps] show ?thesis by blast
qed

theorem phase_never_regresses_witness:
  "Phase (exampleStatus '''' None 0)
     \<in> {'''', SandboxClaimPhaseClaiming, SandboxClaimPhaseCompleted} \<and>
   successivePhases nanosecondsString
     [(tickingClock 0 10, exampleClaim None None, Some SandboxSetObj),
      (tickingClock 10 10, exampleClaim None None, Some SandboxSetObj),
      (tickingClock 20 10, exampleClaim None None, None),
      (tickingClock 30 10, exampleClaim None None, Some SandboxSetObj)]
     (exampleStatus '''' None 0)
     = ['''', SandboxClaimPhaseClaiming, SandboxClaimPhaseClaiming, SandboxClaimPhaseCompleted,
        SandboxClaimPhaseCompleted] \<and>
   sorted (map phaseRank (successivePhases nanosecondsString
     [(tickingClock 0 10, exampleClaim None None, Some SandboxSetObj),
      (tickingClock 10 10, exampleClaim None None, Some SandboxSetObj),
      (tickingClock 20 10, exampleClaim None None, None),
      (tickingClock 30 10, exampleClaim None None, Some SandboxSetObj)]
     (exampleStatus '''' None 0))) \<and>
   map phaseRank ['''', SandboxClaimPhaseClaiming, SandboxClaimPhaseClaiming,
                  SandboxClaimPhaseCompleted, SandboxClaimPhaseCompleted] = [0, 1, 1, 2, 2] \<and>
   (\<exists>st. fst (CalculateClaimStatus nanosecondsString (tickingClock 0 10)
                (exampleArgs None None None SandboxClaimPhaseCompleted (Some 0) 0))
            = Some (st, False) \<and>
         Phase st = SandboxClaimPhaseCompleted)"
proof -
  let ?steps = "[(tickingClock 0 10, exampleClaim None None, Some SandboxSetObj),
      (tickingClock 10 10, exampleClaim None None, Some SandboxSetObj),
      (tickingClock 20 10, exampleClaim None None, None),
      (tickingClock 30 10, exampleClaim None None, Some SandboxSetObj)]"
  have h: "Phase (exampleStatus '''' None 0)
     \<in> {'''', SandboxClaimPhaseClaiming, SandboxClaimPhaseCompleted}"
    by (simp add: exampleStatus_def)
  note inst = phase_never_regresses [OF h, of nanosecondsString ?steps]
  have run: "successivePhases nanosecondsString ?steps (exampleStatus '''' None 0)
     = ['''', SandboxClaimPhaseClaiming, SandboxClaimPhaseClaiming, SandboxClaimPhaseCompleted,
        SandboxClaimPhaseCompleted]"
    by (simp add: calc_defs)
  have ranks: "map phaseRank ['''', SandboxClaimPhaseClaiming, SandboxClaimPhaseClaiming,
                  SandboxClaimPhaseCompleted, SandboxClaimPhaseCompleted] = [0, 1, 1, 2, 2]"
    by (simp add: phaseRank_def SandboxClaimPhaseClaiming_def SandboxClaimPhaseCompleted_def)
  have p: "Phase (NewStatus (exampleArgs None None None SandboxClaimPhaseCompleted (Some 0) 0))
             = SandboxClaimPhaseCompleted"
    by (simp add: exampleArgs_def exampleStatus_def)
  from inst p have absorb: "\<exists>st. fst (CalculateClaimStatus nanosecondsString (tickingClock 0 10)
                (exampleArgs None None None SandboxClaimPhaseCompleted (Some 0) 0))
            = Some (st, False) \<and> Phase st = SandboxClaimPhaseCompleted"
    by blast
  from inst have "sorted (map phaseRank (successivePhases nanosecondsString ?steps
                    (exampleStatus '''' None 0)))"
    by blast
  with h run ranks absorb show ?thesis by blast
qed

section \<open>Webhook, classification and cache: properties\<close>

text \<open>
  C7. For an update request whose old and new object both decode, the webhook answers
  through \<^verbatim>\<open>handleUpdate\<close>, which denies exactly when the replica counts differ, an unset
  count standing for 1 on both sides, and allows otherwise; changing an unset count to
  an explicit 1 is allowed.
\<close>

theorem replicas_immutable_on_update:
  assumes "ReqOperation req = Update"
      and "decode (OldObject req) = Inr oldClaim"
      and "decode (Object req) = Inr newClaim"
  shows "let oldReplicas = (case Replicas (Spec oldClaim) of Some r \<Rightarrow> r | None \<Rightarrow> 1);
             newReplicas = (case Replicas (Spec newClaim) of Some r \<Rightarrow> r | None \<Rightarrow> 1)
         in Handle decode req = handleUpdate decode req \<and>
            ((\<exists>msg. handleUpdate decode req = Denied msg) \<longleftrightarrow> oldReplicas \<noteq> newReplicas) \<and>
            (handleUpdate decode req = Allowed '''' \<longleftrightarrow> oldReplicas = newReplicas) \<and>
            (Replicas (Spec oldClaim) = None \<and> Replicas (Spec newClaim) = Some 1 \<longrightarrow>
               handleUpdate decode req = Allowed '''')"
  using assms by (simp add: Handle_def handleUpdate_def Let_def)

theorem replicas_immutable_on_update_witness:
  "ReqOperation \<lparr>ReqOperation = Update, Object = ''one'', OldObject = ''unset''\<rparr> = Update \<and>
   exampleDecode (OldObject \<lparr>ReqOperation = Update, Object = ''one'', OldObject = ''unset''\<rparr>)
     = Inr (exampleClaim None None) \<and>
   exampleDecode (Object \<lparr>ReqOperation = Update, Object = ''one'', OldObject = ''unset''\<rparr>)
     = Inr (exampleClaim (Some 1) None) \<and>
   Handle exampleDecode \<lparr>ReqOperation = Update, Object = ''one'', OldObject = ''unset''\<rparr>
     = Allowed '''' \<and>
   ReqOperation \<lparr>ReqOperation = Update, Object = ''two'', OldObject = ''unset''\<rparr> = Update \<and>
   exampleDecode (OldObject \<lparr>ReqOperation = Update, Object = ''two'', OldObject = ''unset''\<rparr>)
     = Inr (exampleClaim None None) \<and>
   exampleDecode (Object \<lparr>ReqOperation = Update, Object = ''two'', OldObject = ''unset''\<rparr>)
     = Inr (exampleClaim (Some 2) None) \<and>
   (\<exists>msg. Handle exampleDecode \<lparr>ReqOperation = Update, Object = ''two'', OldObject = ''unset''\<rparr>
            = Denied msg) \<and>
   handleUpdate exampleDecode \<lparr>ReqOperation = Update, Object = ''two'', OldObject = ''unset''\<rparr>
     = Denied ''spec.replicas is immutable, cannot change from 1 to 2''"
proof -
  let ?same = "\<lparr>ReqOperation = Update, Object = ''one'', OldObject = ''unset''\<rparr>"
  let ?diff = "\<lparr>ReqOperation = Update, Object = ''two'', OldObject = ''unset''\<rparr>"
  have s1: "ReqOperation ?same = Update"
    and s2: "exampleDecode (OldObject ?same) = Inr (exampleClaim None None)"
    and s3: "exampleDecode (Object ?same) = Inr (exampleClaim (Some 1) None)"
    by (simp_all add: exampleDecode_def)
  have d1: "ReqOperation ?diff = Update"
    and d2: "exampleDecode (OldObject ?diff) = Inr (exampleClaim None None)"
    and d3: "exampleDecode (Object ?diff) = Inr (exampleClaim (Some 2) None)"
    by (simp_all add: exampleDecode_def)
  have vals: "Replicas (Spec (exampleClaim None None)) = None"
    "Replicas (Spec (exampleClaim (Some 1) None)) = Some 1"
    "Replicas (Spec (exampleClaim (Some 2) None)) = Some 2"
    by (simp_all add: exampleClaim_def)
  from replicas_immutable_on_update [OF s1 s2 s3]
  have same: "Handle exampleDecode ?same = Allowed ''''"
    unfolding Let_def vals by simp
  from replicas_immutable_on_update [OF d1 d2 d3]
  have diff: "\<exists>msg. Handle exampleDecode ?diff = Denied msg"
    unfolding Let_def vals by simp
  have msg: "handleUpdate exampleDecode ?diff
     = Denied ''spec.replicas is immutable, cannot change from 1 to 2''"
    by (simp add: handleUpdate_def exampleDecode_def exampleClaim_def fmt_d_def decimal.simps)
  from s1 s2 s3 same d1 d2 d3 diff msg show ?thesis by blast
qed

text \<open>
  C8. A sandbox that is not being deleted, whose shutdown time (if any) has not passed,
  whose phase is Running and which no SandboxSet controls is classified Paused when its
  pause flag is set; otherwise Running when it has a pod address and the Ready condition
  found for it is true; otherwise Dead. The three states are different.
\<close>

theorem claimed_running_classification:
  assumes "DeletionTimestamp sbx = None"
      and "\<not> fst (shutdownTimeReached clk sbx)"
      and "SandboxPhase (SbxStatus sbx) = SandboxRunning"
      and "\<not> IsControlledBySandboxCR ext sbx"
  shows "fst (fst (computeSandboxState ext clk sbx)) =
           (if Paused (SbxSpec sbx) then SandboxStatePaused
            else if PodIP (SandboxPodInfo (SbxStatus sbx)) \<noteq> '''' \<and>
                    (\<exists>readyCond. GetSandboxCondition ext (SbxStatus sbx) SandboxConditionReady
                                   = Some readyCond \<and>
                                 CondStatus readyCond = ConditionTrue)
                 then SandboxStateRunning
                 else SandboxStateDead) \<and>
         SandboxStateDead \<noteq> SandboxStateRunning \<and> SandboxStateDead \<noteq> SandboxStatePaused \<and>
         SandboxStateRunning \<noteq> SandboxStatePaused"
proof -
  have ready: "IsSandboxReady ext sbx \<longleftrightarrow>
      PodIP (SandboxPodInfo (SbxStatus sbx)) \<noteq> '''' \<and>
      (\<exists>readyCond. GetSandboxCondition ext (SbxStatus sbx) SandboxConditionReady = Some readyCond \<and>
                   CondStatus readyCond = ConditionTrue)"
    by (simp add: IsSandboxReady_def split: option.splits)
  have phase: "SandboxRunning \<noteq> SandboxPending" "SandboxRunning \<noteq> SandboxSucceeded"
    "SandboxRunning \<noteq> SandboxFailed" "SandboxRunning \<noteq> SandboxTerminating"
    by (simp_all add: SandboxRunning_def SandboxPending_def SandboxSucceeded_def
        SandboxFailed_def SandboxTerminating_def)
  have states: "SandboxStateDead \<noteq> SandboxStateRunning" "SandboxStateDead \<noteq> SandboxStatePaused"
    "SandboxStateRunning \<noteq> SandboxStatePaused"
    by (simp_all add: SandboxStateDead_def SandboxStateRunning_def SandboxStatePaused_def)
  have "fst (fst (computeSandboxState ext clk sbx)) =
          (if Paused (SbxSpec sbx) then SandboxStatePaused
           else if IsSandboxReady ext sbx then SandboxStateRunning else SandboxStateDead)"
    using assms phase
    by (simp add: computeSandboxState_def Let_def split_def)
  with ready states show ?thesis by simp
qed

theorem claimed_running_classification_witness:
  "DeletionTimestamp (exampleSandbox ''7'' SandboxRunning False ''10.0.0.1'' []) = None \<and>
   \<not> fst (shutdownTimeReached (tickingClock 0 10)
            (exampleSandbox ''7'' SandboxRunning False ''10.0.0.1'' [])) \<and>
   SandboxPhase (SbxStatus (exampleSandbox ''7'' SandboxRunning False ''10.0.0.1'' []))
     = SandboxRunning \<and>
   \<not> IsControlledBySandboxCR exampleExternals
        (exampleSandbox ''7'' SandboxRunning False ''10.0.0.1'' []) \<and>
   fst (fst (computeSandboxState exampleExternals (tickingClock 0 10)
               (exampleSandbox ''7'' SandboxRunning False ''10.0.0.1'' [])))
     = SandboxStateDead \<and>
   DeletionTimestamp (exampleSandbox ''7'' SandboxRunning False ''10.0.0.1''
                        [exampleCondition SandboxConditionReady ''PodReady'']) = None \<and>
   \<not> fst (shutdownTimeReached (tickingClock 0 10)
            (exampleSandbox ''7'' SandboxRunning False ''10.0.0.1''
               [exampleCondition SandboxConditionReady ''PodReady''])) \<and>
   SandboxPhase (SbxStatus (exampleSandbox ''7'' SandboxRunning False ''10.0.0.1''
                              [exampleCondition SandboxConditionReady ''PodReady'']))
     = SandboxRunning \<and>
   \<not> IsControlledBySandboxCR exampleExternals
        (exampleSandbox ''7'' SandboxRunning False ''10.0.0.1''
           [exampleCondition SandboxConditionReady ''PodReady'']) \<and>
   fst (fst (computeSandboxState exampleExternals (tickingClock 0 10)
               (exampleSandbox ''7'' SandboxRunning False ''10.0.0.1''
                  [exampleCondition SandboxConditionReady ''PodReady''])))
     = SandboxStateRunning"
proof -
  let ?notReady = "exampleSandbox ''7'' SandboxRunning False ''10.0.0.1'' []"
  let ?ready = "exampleSandbox ''7'' SandboxRunning False ''10.0.0.1''
                  [exampleCondition SandboxConditionReady ''PodReady'']"
  let ?clk = "tickingClock 0 10"
  have n1: "DeletionTimestamp ?notReady = None"
    and n2: "\<not> fst (shutdownTimeReached ?clk ?notReady)"
    and n3: "SandboxPhase (SbxStatus ?notReady) = SandboxRunning"
    and n4: "\<not> IsControlledBySandboxCR exampleExternals ?notReady"
    by (simp_all add: exampleSandbox_def shutdownTimeReached_def IsControlledBySandboxCR_def)
  have r1: "DeletionTimestamp ?ready = None"
    and r2: "\<not> fst (shutdownTimeReached ?clk ?ready)"
    and r3: "SandboxPhase (SbxStatus ?ready) = SandboxRunning"
    and r4: "\<not> IsControlledBySandboxCR exampleExternals ?ready"
    by (simp_all add: exampleSandbox_def shutdownTimeReached_def IsControlledBySandboxCR_def)
  from claimed_running_classification [OF n1 n2 n3 n4]
  have dead: "fst (fst (computeSandboxState exampleExternals ?clk ?notReady)) = SandboxStateDead"
    by (simp add: exampleSandbox_def exampleExternals_def)
  from claimed_running_classification [OF r1 r2 r3 r4]
  have running: "fst (fst (computeSandboxState exampleExternals ?clk ?ready)) = SandboxStateRunning"
    by (simp add: exampleSandbox_def exampleExternals_def exampleCondition_def)
  from n1 n2 n3 n4 dead r1 r2 r3 r4 running show ?thesis by blast
qed

text \<open>
  C9. For a sandbox with an empty resource version \<^verbatim>\<open>GetSandboxState\<close> returns what
  \<^verbatim>\<open>computeSandboxState\<close> computes, whatever the cache holds, and the cache is the same
  afterwards.
\<close>

theorem unversioned_bypasses_cache:
  assumes "ResourceVersion sbx = ''''"
  shows "GetSandboxState ext clk cache sbx =
           (fst (computeSandboxState ext clk sbx), snd (computeSandboxState ext clk sbx), cache)"
  using assms by (simp add: GetSandboxState_def Let_def split_def)

theorem unversioned_bypasses_cache_witness:
  "ResourceVersion (exampleSandbox '''' SandboxRunning True ''10.0.0.1'' []) = '''' \<and>
   GetSandboxState exampleExternals (tickingClock 0 10) exampleCache
       (exampleSandbox '''' SandboxRunning True ''10.0.0.1'' [])
     = ((SandboxStatePaused, ''RunningResourceClaimedAndPaused''), tickingClock 0 10, exampleCache) \<and>
   exampleCache (StringKey ''default/sbx/'') = Some (CacheEntry SandboxStatePaused ''stale'')"
proof -
  let ?sbx = "exampleSandbox '''' SandboxRunning True ''10.0.0.1'' []"
  have h: "ResourceVersion ?sbx = ''''" by (simp add: exampleSandbox_def)
  have c: "computeSandboxState exampleExternals (tickingClock 0 10) ?sbx
             = ((SandboxStatePaused, ''RunningResourceClaimedAndPaused''), tickingClock 0 10)"
    by (simp add: computeSandboxState_def shutdownTimeReached_def IsControlledBySandboxCR_def
        exampleSandbox_def SandboxRunning_def SandboxPending_def SandboxSucceeded_def
        SandboxFailed_def SandboxTerminating_def Let_def)
  have e: "exampleCache (StringKey ''default/sbx/'') = Some (CacheEntry SandboxStatePaused ''stale'')"
    by (simp add: exampleCache_def)
  from unversioned_bypasses_cache [OF h, of exampleExternals "tickingClock 0 10" exampleCache]
  have "GetSandboxState exampleExternals (tickingClock 0 10) exampleCache ?sbx
     = ((SandboxStatePaused, ''RunningResourceClaimedAndPaused''), tickingClock 0 10, exampleCache)"
    by (simp add: c)
  with h e show ?thesis by blast
qed

text \<open>
  C10. \<^verbatim>\<open>DeleteSandboxCache\<close> with an empty namespace or an empty name leaves the cache
  as it is.
\<close>

theorem delete_without_identity_keeps_cache:
  assumes "namespace = '''' \<or> name = ''''"
  shows "DeleteSandboxCache namespace name cache = cache"
  using assms by (auto simp: DeleteSandboxCache_def)

theorem delete_without_identity_keeps_cache_witness:
  "('''' = '''' \<or> ''sbx'' = '''') \<and>
   DeleteSandboxCache '''' ''sbx'' exampleCache = exampleCache \<and>
   (''default'' = '''' \<or> '''' = '''') \<and>
   DeleteSandboxCache ''default'' '''' exampleCache = exampleCache \<and>
   exampleCache (StringKey ''/sbx/7'') = Some (CacheEntry SandboxStateRunning ''kept'') \<and>
   exampleCache (StringKey ''default/sbx/'') = Some (CacheEntry SandboxStatePaused ''stale'')"
proof -
  have h1: "'''' = '''' \<or> ''sbx'' = ''''" by simp
  have h2: "''default'' = '''' \<or> '''' = ''''" by simp
  have e: "exampleCache (StringKey ''/sbx/7'') = Some (CacheEntry SandboxStateRunning ''kept'')"
    "exampleCache (StringKey ''default/sbx/'') = Some (CacheEntry SandboxStatePaused ''stale'')"
    by (simp_all add: exampleCache_def)
  from h1 delete_without_identity_keeps_cache [OF h1, of exampleCache]
       h2 delete_without_identity_keeps_cache [OF h2, of exampleCache] e
  show ?thesis by blast
qed

end
